theory Spec2Isabelle
  imports Complex_Main
begin

section \<open>JavaScript values\<close>

text \<open>
  The plugin checks its inputs at run time with \<^verbatim>\<open>typeof\<close>, so option values and the
  data a worker returns are modelled as tagged values. A number is an IEEE binary64
  value: a finite one is the real it denotes, and there are the two infinities and
  \<^verbatim>\<open>NaN\<close>. Negative zero is identified with zero: the tests of the source (\<^verbatim>\<open><\<close>,
  \<^verbatim>\<open>>=\<close>, \<^verbatim>\<open>===\<close>, \<^verbatim>\<open>||\<close>, \<^verbatim>\<open>isNaN\<close>) and its sums do not tell them apart.
\<close>

datatype jsnum = Num real | PosInf | NegInf | NaN

datatype jsval = Undefined | Bool bool | Str string | Number jsnum

fun typeof :: "jsval \<Rightarrow> string" where
  "typeof Undefined = ''undefined''"
| "typeof (Bool b) = ''boolean''"
| "typeof (Str s) = ''string''"
| "typeof (Number n) = ''number''"

text \<open>
  The number held by a value whose \<^verbatim>\<open>typeof\<close> is \<^verbatim>\<open>number\<close>. The source compares
  option values and report fields with \<^verbatim>\<open><\<close>, \<^verbatim>\<open><=\<close>, \<^verbatim>\<open>>\<close> only behind a
  \<^verbatim>\<open>typeof\<close> test that has established this, or after validation has; for the other
  values the comparison is answered as for \<^verbatim>\<open>NaN\<close> (false).
\<close>

fun number_of :: "jsval \<Rightarrow> jsnum" where
  "number_of (Number n) = n"
| "number_of _ = NaN"

text \<open>The comparisons: every comparison with \<^verbatim>\<open>NaN\<close> is false.\<close>

fun js_lt :: "jsnum \<Rightarrow> jsnum \<Rightarrow> bool" where
  "js_lt (Num a) (Num b) = (a < b)"
| "js_lt NegInf (Num b) = True"
| "js_lt NegInf PosInf = True"
| "js_lt (Num a) PosInf = True"
| "js_lt _ _ = False"

fun js_le :: "jsnum \<Rightarrow> jsnum \<Rightarrow> bool" where
  "js_le (Num a) (Num b) = (a \<le> b)"
| "js_le NaN _ = False"
| "js_le _ NaN = False"
| "js_le NegInf _ = True"
| "js_le _ PosInf = True"
| "js_le _ _ = False"

fun js_gt :: "jsnum \<Rightarrow> jsnum \<Rightarrow> bool" where
  "js_gt (Num a) (Num b) = (a > b)"
| "js_gt (Num a) NegInf = True"
| "js_gt PosInf NegInf = True"
| "js_gt PosInf (Num b) = True"
| "js_gt _ _ = False"

fun js_ge :: "jsnum \<Rightarrow> jsnum \<Rightarrow> bool" where
  "js_ge (Num a) (Num b) = (a \<ge> b)"
| "js_ge NaN _ = False"
| "js_ge _ NaN = False"
| "js_ge _ NegInf = True"
| "js_ge PosInf _ = True"
| "js_ge _ _ = False"

text \<open>\<^verbatim>\<open>===\<close> on two numbers: \<^verbatim>\<open>NaN\<close> is equal to nothing, itself included.\<close>

fun js_strict_eq :: "jsnum \<Rightarrow> jsnum \<Rightarrow> bool" where
  "js_strict_eq NaN _ = False"
| "js_strict_eq _ NaN = False"
| "js_strict_eq a b = (a = b)"

fun isNaN :: "jsnum \<Rightarrow> bool" where
  "isNaN NaN = True"
| "isNaN _ = False"

subsection \<open>Rounding to binary64\<close>

text \<open>
  The result of an arithmetic operation on doubles is the exact result rounded to the
  nearest double, ties to the even significand. \<open>bits n\<close> is the position of the
  leading bit of \<open>n\<close>, \<open>exponent x\<close> the \<open>e\<close> with \<open>2^e \<le> |x| < 2^(e+1)\<close>. A double
  has 53 significant bits and is a multiple of \<open>2^-1074\<close>, so \<open>x\<close> is rounded to a
  multiple of \<open>2^q\<close> with \<open>q\<close> the larger of \<open>e - 52\<close> and \<open>-1074\<close>; a result beyond the
  largest double is an infinity.
\<close>

fun bits :: "nat \<Rightarrow> nat" where
  "bits n = (if n < 2 then 0 else Suc (bits (n div 2)))"

declare bits.simps [simp del]

definition exponent :: "real \<Rightarrow> int" where
  "exponent x =
     (if 1 \<le> \<bar>x\<bar> then int (bits (nat \<lfloor>\<bar>x\<bar>\<rfloor>))
      else if nat \<lceil>1 / \<bar>x\<bar>\<rceil> \<le> 1 then 0
      else - int (Suc (bits (nat \<lceil>1 / \<bar>x\<bar>\<rceil> - 1))))"

definition pow2 :: "int \<Rightarrow> real" where
  "pow2 q = (if 0 \<le> q then 2 ^ nat q else 1 / 2 ^ nat (- q))"

definition round_half_even :: "real \<Rightarrow> int" where
  "round_half_even r =
     (if r - of_int \<lfloor>r\<rfloor> < 1 / 2 then \<lfloor>r\<rfloor>
      else if 1 / 2 < r - of_int \<lfloor>r\<rfloor> then \<lfloor>r\<rfloor> + 1
      else if even \<lfloor>r\<rfloor> then \<lfloor>r\<rfloor> else \<lfloor>r\<rfloor> + 1)"

definition round64 :: "real \<Rightarrow> real" where
  "round64 x =
     (if x = 0 then 0
      else of_int (round_half_even (x / pow2 (max (exponent x - 52) (- 1074))))
             * pow2 (max (exponent x - 52) (- 1074)))"

definition maxDouble :: real where
  "maxDouble = (2 ^ 53 - 1) * 2 ^ 971"

definition fl :: "real \<Rightarrow> jsnum" where
  "fl x = (if maxDouble < round64 x then PosInf
           else if round64 x < - maxDouble then NegInf
           else Num (round64 x))"

subsection \<open>Arithmetic\<close>

fun js_neg :: "jsnum \<Rightarrow> jsnum" where
  "js_neg (Num a) = Num (- a)"
| "js_neg PosInf = NegInf"
| "js_neg NegInf = PosInf"
| "js_neg NaN = NaN"

fun js_add :: "jsnum \<Rightarrow> jsnum \<Rightarrow> jsnum" where
  "js_add (Num a) (Num b) = fl (a + b)"
| "js_add NaN _ = NaN"
| "js_add _ NaN = NaN"
| "js_add PosInf NegInf = NaN"
| "js_add NegInf PosInf = NaN"
| "js_add PosInf _ = PosInf"
| "js_add _ PosInf = PosInf"
| "js_add NegInf _ = NegInf"
| "js_add _ NegInf = NegInf"

definition js_sub :: "jsnum \<Rightarrow> jsnum \<Rightarrow> jsnum" where
  "js_sub a b = js_add a (js_neg b)"

text \<open>The sign of a product or quotient with an infinity.\<close>

definition signed_inf :: "bool \<Rightarrow> jsnum" where
  "signed_inf negative = (if negative then NegInf else PosInf)"

fun js_mul :: "jsnum \<Rightarrow> jsnum \<Rightarrow> jsnum" where
  "js_mul (Num a) (Num b) = fl (a * b)"
| "js_mul NaN _ = NaN"
| "js_mul _ NaN = NaN"
| "js_mul (Num a) PosInf = (if a = 0 then NaN else signed_inf (a < 0))"
| "js_mul (Num a) NegInf = (if a = 0 then NaN else signed_inf (0 < a))"
| "js_mul PosInf (Num b) = (if b = 0 then NaN else signed_inf (b < 0))"
| "js_mul NegInf (Num b) = (if b = 0 then NaN else signed_inf (0 < b))"
| "js_mul PosInf PosInf = PosInf"
| "js_mul NegInf NegInf = PosInf"
| "js_mul PosInf NegInf = NegInf"
| "js_mul NegInf PosInf = NegInf"

text \<open>
  Division: a finite number by zero is an infinity (\<^verbatim>\<open>NaN\<close> for 0/0), a finite number by
  an infinity is zero, an infinity by an infinity is \<^verbatim>\<open>NaN\<close>. The zero divisor is taken
  as positive; the divisors of the source (\<^verbatim>\<open>MinGuildsPerShard\<close>, the shards per cluster)
  are not zero once \<^verbatim>\<open>validate\<close> has passed.
\<close>

fun js_div :: "jsnum \<Rightarrow> jsnum \<Rightarrow> jsnum" where
  "js_div (Num a) (Num b) =
     (if b = 0 then (if a = 0 then NaN else signed_inf (a < 0)) else fl (a / b))"
| "js_div NaN _ = NaN"
| "js_div _ NaN = NaN"
| "js_div (Num a) PosInf = Num 0"
| "js_div (Num a) NegInf = Num 0"
| "js_div PosInf (Num b) = signed_inf (b < 0)"
| "js_div NegInf (Num b) = signed_inf (0 \<le> b)"
| "js_div _ _ = NaN"

text \<open>\<^verbatim>\<open>Math.ceil\<close>: the ceiling of a double is a double.\<close>

fun Math_ceil :: "jsnum \<Rightarrow> jsnum" where
  "Math_ceil (Num a) = Num (of_int \<lceil>a\<rceil>)"
| "Math_ceil PosInf = PosInf"
| "Math_ceil NegInf = NegInf"
| "Math_ceil NaN = NaN"

text \<open>\<^verbatim>\<open>a || b\<close> on numbers: \<^verbatim>\<open>0\<close> and \<^verbatim>\<open>NaN\<close> are falsy.\<close>

fun js_or :: "jsnum \<Rightarrow> jsnum \<Rightarrow> jsnum" where
  "js_or (Num a) b = (if a = 0 then b else Num a)"
| "js_or NaN b = b"
| "js_or a b = a"

text \<open>The double that the literal \<^verbatim>\<open>1.2\<close> denotes.\<close>

definition double_1_2 :: real where
  "double_1_2 = 5404319552844595 / 4503599627370496"

text \<open>
  Arrays are objects: two arrays are \<^verbatim>\<open>==\<close> only when they are the same object. An
  array is therefore a reference into a store of arrays (its index there), and
  allocation appends to the store.
\<close>

type_synonym ref = nat
type_synonym store = "nat list list"

definition alloc :: "store \<Rightarrow> nat list \<Rightarrow> ref \<times> store" where
  "alloc h xs = (length h, h @ [xs])"

text \<open>
  \<^verbatim>\<open>Array.from(Array(n).keys())\<close> for a number \<open>n\<close>: \<^verbatim>\<open>Array(n)\<close> raises a RangeError
  unless \<open>n\<close> is an integer with \<open>0 \<le> n < 2^32\<close>; otherwise the keys are \<open>0..n-1\<close>.
\<close>

definition array_keys :: "jsnum \<Rightarrow> nat list option" where
  "array_keys n =
     (case n of
        Num a \<Rightarrow>
          (if a = of_int \<lfloor>a\<rfloor> \<and> 0 \<le> a \<and> a < 2 ^ 32 then Some [0 ..< nat \<lfloor>a\<rfloor>] else None)
      | _ \<Rightarrow> None)"

text \<open>The settled value of an awaited promise.\<close>

datatype 'a promise = Fulfilled 'a | Rejected

section \<open>Errors and results\<close>

text \<open>
  One constructor per \<^verbatim>\<open>throw\<close> of the source (and per rejection of an awaited external
  call), with the JavaScript class and the line in \<^verbatim>\<open>AutoSharder.ts\<close>.
\<close>

datatype error =
    InvalidClusterClient        \<comment> \<open>SyntaxError, line 119\<close>
  | InvalidSendDataIntervalMS   \<comment> \<open>SyntaxError, line 123\<close>
  | InvalidSendDataFunction     \<comment> \<open>SyntaxError, line 125\<close>
  | NotRunning                  \<comment> \<open>Error 'Not running!', line 139\<close>
  | AlreadyStarted              \<comment> \<open>Error 'Already started', line 150\<close>
  | SendDataFunctionRejected    \<comment> \<open>the awaited sendDataFunction rejects, line 203\<close>
  | InvalidSendData             \<comment> \<open>SyntaxError, line 218\<close>
  | SendRejected                \<comment> \<open>the awaited clusterClient.send rejects, line 225\<close>
  | CustomShardList             \<comment> \<open>RangeError, line 312\<close>
  | MissingReClusterPlugin      \<comment> \<open>RangeError, lines 322 and 403\<close>
  | FetchRejected               \<comment> \<open>the awaited fetchRecommendedShards rejects, line 337\<close>
  | InvalidArrayLength          \<comment> \<open>RangeError of Array(realShardCount), line 369\<close>
  | ReClusterRejected           \<comment> \<open>the awaited recluster.start rejects, line 364\<close>
  | InvalidShardsPerCluster     \<comment> \<open>SyntaxError, lines 382 and 386\<close>
  | InvalidMinGuildsPerShard    \<comment> \<open>SyntaxError, lines 390 and 392\<close>
  | InvalidMaxGuildsPerShard    \<comment> \<open>SyntaxError, line 399\<close>
  | AutoNeedsMaxAbove2000       \<comment> \<open>RangeError, line 409\<close>

datatype 'a result = Threw error | Returned 'a

section \<open>The data sent from a cluster to the manager\<close>

text \<open>
  \<^verbatim>\<open>AutoResharderSendData\<close> and its shard entries. The field types are parameters: the
  cluster client checks the value its \<^verbatim>\<open>sendDataFunction\<close> returned field by field, so
  there the fields are \<^typ>\<open>jsval\<close>; the manager casts what it receives to the
  interface, so there \<open>clusterId\<close>, \<open>shardId\<close> and \<open>guildCount\<close> are numbers, as the
  interface declares them (\<^verbatim>\<open>NaN\<close> is a number, and the client's check of line 205
  lets it pass).
\<close>

record ('i, 'n) shardDatum =
  shardId :: 'i
  guildCount :: 'n

record ('i, 's) autoResharderSendData =
  clusterId :: 'i
  shardData :: 's

datatype messageType = CLIENT_AUTORESHARDER_SENDDATA | OTHER_MESSAGE nat

record 'd sendDataMessage =
  data :: 'd
  msg_type :: messageType

type_synonym clusterData = "(jsnum, (jsnum, jsnum) shardDatum list) autoResharderSendData"

section \<open>AutoResharderManager\<close>

subsection \<open>Options and the cluster manager\<close>

record restartOptions =
  restartMode :: "string option"
  delay :: "real option"
  timeout :: "real option"

record managerOptions =
  ShardsPerCluster :: jsval
  MinGuildsPerShard :: jsval
  MaxGuildsPerShard :: jsval
  restartOptions :: restartOptions
  debug :: bool

text \<open>\<^verbatim>\<open>Partial<AutoResharderManagerOptions>\<close>: \<open>None\<close> is an absent key.\<close>

record partialRestartOptions =
  p_restartMode :: "string option"
  p_delay :: "real option"
  p_timeout :: "real option"

record partialManagerOptions =
  p_ShardsPerCluster :: "jsval option"
  p_MinGuildsPerShard :: "jsval option"
  p_MaxGuildsPerShard :: "jsval option"
  p_restartOptions :: "partialRestartOptions option"
  p_debug :: "bool option"

text \<open>The request handed to \<^verbatim>\<open>manager.recluster.start\<close> (lines 364-370).\<close>

record reclusterRequest =
  req_restartOptions :: restartOptions
  req_shardsPerClusters :: jsnum
  req_totalShards :: jsnum
  req_totalClusters :: jsnum
  req_shardList :: ref

text \<open>
  The \<^verbatim>\<open>ClusterManager\<close> is imported from a file that is not part of the sources; the
  plugin reads the members below, which are taken as given. \<open>recluster\<close> is \<open>None\<close> when
  the ReCluster plugin is not attached and otherwise the settled value of
  \<^verbatim>\<open>recluster.start\<close> for each request; \<open>shardsPerClusters\<close> is \<open>None\<close> when undefined;
  \<open>shardList\<close> is a reference to an array in the store.
\<close>

record clusterManager =
  clusterList :: "nat list"
  totalShards :: nat
  shardList :: ref
  shardsPerClusters :: "nat option"
  totalClusters :: nat
  token :: string
  recluster :: "(reclusterRequest \<Rightarrow> unit promise) option"

text \<open>The default options of lines 237-247.\<close>

definition defaultRestartOptions :: restartOptions where
  "defaultRestartOptions =
     \<lparr>restartMode = Some ''gracefulSwitch'', delay = Some 7000, timeout = Some (- 1)\<rparr>"

definition defaultManagerOptions :: managerOptions where
  "defaultManagerOptions =
     \<lparr>ShardsPerCluster = Str ''useManagerOption'',
      MinGuildsPerShard = Number (Num 800),
      MaxGuildsPerShard = Number (Num 1750),
      restartOptions = defaultRestartOptions,
      debug = True\<rparr>"

definition override :: "'a \<Rightarrow> 'a option \<Rightarrow> 'a" where
  "override d v = (case v of None \<Rightarrow> d | Some x \<Rightarrow> x)"

text \<open>The two object spreads of the constructor (lines 258-265).\<close>

definition mergeRestartOptions :: "restartOptions \<Rightarrow> partialRestartOptions option \<Rightarrow> restartOptions" where
  "mergeRestartOptions d p =
     (case p of
        None \<Rightarrow> d
      | Some q \<Rightarrow>
          \<lparr>restartMode = (case p_restartMode q of None \<Rightarrow> restartMode d | Some x \<Rightarrow> Some x),
           delay = (case p_delay q of None \<Rightarrow> delay d | Some x \<Rightarrow> Some x),
           timeout = (case p_timeout q of None \<Rightarrow> timeout d | Some x \<Rightarrow> Some x)\<rparr>)"

definition mergeManagerOptions :: "managerOptions \<Rightarrow> partialManagerOptions option \<Rightarrow> managerOptions" where
  "mergeManagerOptions d p =
     (case p of
        None \<Rightarrow> d
      | Some q \<Rightarrow>
          \<lparr>ShardsPerCluster = override (ShardsPerCluster d) (p_ShardsPerCluster q),
           MinGuildsPerShard = override (MinGuildsPerShard d) (p_MinGuildsPerShard q),
           MaxGuildsPerShard = override (MaxGuildsPerShard d) (p_MaxGuildsPerShard q),
           restartOptions = mergeRestartOptions (restartOptions d) (p_restartOptions q),
           debug = override (debug d) (p_debug q)\<rparr>)"

subsection \<open>validate (lines 380-412)\<close>

text \<open>
  Every failing test of \<^verbatim>\<open>validate\<close> throws, so the sequence of \<^verbatim>\<open>if\<close> statements is
  one chain: the first test that holds decides the error.
\<close>

definition Manager_validate :: "clusterManager \<Rightarrow> managerOptions \<Rightarrow> unit result" where
  "Manager_validate m opts =
     (if typeof (ShardsPerCluster opts) = ''string''
         \<and> ShardsPerCluster opts \<noteq> Str ''useManagerOption''
      then Threw InvalidShardsPerCluster
      else if typeof (ShardsPerCluster opts) \<noteq> ''number''
         \<or> js_lt (number_of (ShardsPerCluster opts)) (Num 1)
      then Threw InvalidShardsPerCluster
      else if typeof (MinGuildsPerShard opts) = ''string''
         \<and> MinGuildsPerShard opts \<noteq> Str ''auto''
      then Threw InvalidMinGuildsPerShard
      else if typeof (MinGuildsPerShard opts) \<noteq> ''number''
         \<or> js_lt (number_of (MinGuildsPerShard opts)) (Num 500)
      then Threw InvalidMinGuildsPerShard
      else if typeof (MaxGuildsPerShard opts) \<noteq> ''number''
         \<or> (typeof (MinGuildsPerShard opts) = ''number''
             \<and> js_le (number_of (MaxGuildsPerShard opts)) (number_of (MinGuildsPerShard opts)))
         \<or> js_gt (number_of (MaxGuildsPerShard opts)) (Num 2500)
      then Threw InvalidMaxGuildsPerShard
      else if recluster m = None
      then Threw MissingReClusterPlugin
      else if typeof (MinGuildsPerShard opts) = ''string''
         \<and> MinGuildsPerShard opts = Str ''auto''
         \<and> js_le (number_of (MaxGuildsPerShard opts)) (Num 2000)
      then Threw AutoNeedsMaxAbove2000
      else Returned ())"

subsection \<open>The state of the plugin\<close>

text \<open>What \<^verbatim>\<open>console.debug\<close> printed, one constructor per call site.\<close>

datatype debugLine =
    ReachedSendData nat clusterData   \<comment> \<open>line 287: the cluster's id and the data\<close>
  | NotAllReached                     \<comment> \<open>line 302\<close>
  | AlreadyReSharding                 \<comment> \<open>line 307\<close>
  | Reclustering nat jsnum jsnum      \<comment> \<open>line 347: totalShards, realShardCount, the reached cluster\<close>
  | FinishedAutoresharding            \<comment> \<open>line 374\<close>

text \<open>
  The fields of the class (lines 233-249), together with the parts of the world its
  methods change: the store of arrays, the console, and the requests
  \<^verbatim>\<open>recluster.start\<close> was called with, in order.
\<close>

record autoResharderManager =
  manager :: clusterManager
  clusterDatas :: "clusterData list"
  options :: managerOptions
  clustersListening :: "nat set"
  isReClustering :: bool
  store :: store
  console :: "debugLine list"
  reclusterCalls :: "reclusterRequest list"

text \<open>
  The constructor (lines 255-268): merge, validate, initialize. \<^verbatim>\<open>initialize\<close> only
  registers the \<^verbatim>\<open>clusterCreate\<close> handler, which is \<open>onClusterCreate\<close> below.
\<close>

definition AutoResharderManager ::
  "store \<Rightarrow> clusterManager \<Rightarrow> partialManagerOptions option \<Rightarrow> autoResharderManager result" where
  "AutoResharderManager h clusterManager opts =
     (let merged = mergeManagerOptions defaultManagerOptions opts in
      case Manager_validate clusterManager merged of
        Threw e \<Rightarrow> Threw e
      | Returned _ \<Rightarrow>
          Returned \<lparr>manager = clusterManager, clusterDatas = [], options = merged,
                    clustersListening = {}, isReClustering = False, store = h,
                    console = [], reclusterCalls = []\<rparr>)"

definition debugPrint :: "debugLine \<Rightarrow> autoResharderManager \<Rightarrow> autoResharderManager" where
  "debugPrint l s = s\<lparr>console := console s @ [l]\<rparr>"

subsection \<open>checkReCluster (lines 298-379)\<close>

text \<open>
  The array a reference points to. A reference of the program always points into the
  store; for any other number the answer is the empty array.
\<close>

definition deref :: "store \<Rightarrow> ref \<Rightarrow> nat list" where
  "deref h r = (if r < length h then h ! r else [])"

text \<open>Line 317-319: the first cluster with a shard at or above \<^verbatim>\<open>MaxGuildsPerShard\<close>.\<close>

definition reached :: "managerOptions \<Rightarrow> clusterData \<Rightarrow> bool" where
  "reached opts v =
     list_ex (\<lambda>x. js_ge (guildCount x) (number_of (MaxGuildsPerShard opts))) (shardData v)"

definition reachedCluster :: "autoResharderManager \<Rightarrow> clusterData option" where
  "reachedCluster s = List.find (reached (options s)) (clusterDatas s)"

text \<open>
  Lines 339-341: \<^verbatim>\<open>flatMap\<close> then \<^verbatim>\<open>reduce\<close> from 0, adding each \<^verbatim>\<open>guildCount\<close> that is
  not \<^verbatim>\<open>NaN\<close> (and 0 for one that is) to \<^verbatim>\<open>a || 0\<close>.
\<close>

definition guildSum :: "clusterData list \<Rightarrow> jsnum" where
  "guildSum ds =
     foldl (\<lambda>a b. js_add (if \<not> isNaN (guildCount b) then guildCount b else Num 0)
                            (js_or a (Num 0)))
           (Num 0) (concat (map shardData ds))"

text \<open>
  Lines 335-343. \<^verbatim>\<open>fetchRecommendedShards\<close> is imported from a file that is not part of
  the sources: it is a parameter, the settled value of the call for a token.
\<close>

definition newShardsCount ::
  "(string \<Rightarrow> jsnum promise) \<Rightarrow> autoResharderManager \<Rightarrow> jsnum promise" where
  "newShardsCount fetchRecommendedShards s =
     (if MinGuildsPerShard (options s) = Str ''auto''
      then fetchRecommendedShards (token (manager s))
      else Fulfilled (Math_ceil (js_div (guildSum (clusterDatas s))
                                        (number_of (MinGuildsPerShard (options s))))))"

text \<open>Lines 344-345.\<close>

definition realShardCount :: "jsnum \<Rightarrow> nat \<Rightarrow> jsnum" where
  "realShardCount n current =
     (if js_gt n (Num (of_nat current)) then n
      else Math_ceil (js_mul (Num (of_nat current)) (Num double_1_2)))"

text \<open>Lines 358-362; \<^verbatim>\<open>x || y\<close> takes \<^verbatim>\<open>y\<close> when \<^verbatim>\<open>x\<close> is undefined or 0.\<close>

definition finalShardsPerCluster :: "autoResharderManager \<Rightarrow> jsnum" where
  "finalShardsPerCluster s =
     (if ShardsPerCluster (options s) = Str ''useManagerOption''
      then (case shardsPerClusters (manager s) of
              None \<Rightarrow>
                Math_ceil (js_div (Num (of_nat (length (deref (store s) (shardList (manager s))))))
                                  (Num (of_nat (totalClusters (manager s)))))
            | Some k \<Rightarrow>
                js_or (Num (of_nat k))
                  (Math_ceil (js_div (Num (of_nat (length (deref (store s) (shardList (manager s))))))
                                     (Num (of_nat (totalClusters (manager s)))))))
      else number_of (ShardsPerCluster (options s)))"

text \<open>
  \<^verbatim>\<open>Array.prototype.sort\<close> with a comparator, as a stable insertion sort: \<open>before a b\<close>
  says that the comparator does not put \<open>a\<close> after \<open>b\<close>. The comparator of lines 351
  and 353 is \<^verbatim>\<open>b.guildCount - a.guildCount\<close>; a \<^verbatim>\<open>NaN\<close> difference counts as 0. (With
  \<^verbatim>\<open>NaN\<close> among the counts the comparator is inconsistent and the order JavaScript
  produces is implementation-defined; the model fixes one.)
\<close>

fun insert_before :: "('a \<Rightarrow> 'a \<Rightarrow> bool) \<Rightarrow> 'a \<Rightarrow> 'a list \<Rightarrow> 'a list" where
  "insert_before before x [] = [x]"
| "insert_before before x (y # ys) =
     (if before x y then x # y # ys else y # insert_before before x ys)"

definition sort_js :: "('a \<Rightarrow> 'a \<Rightarrow> bool) \<Rightarrow> 'a list \<Rightarrow> 'a list" where
  "sort_js before xs = foldr (insert_before before) xs []"

definition byGuildCountDesc :: "(jsnum, jsnum) shardDatum \<Rightarrow> (jsnum, jsnum) shardDatum \<Rightarrow> bool" where
  "byGuildCountDesc a b = (\<not> js_gt (js_sub (guildCount b) (guildCount a)) (Num 0))"

fun findIndex :: "('a \<Rightarrow> bool) \<Rightarrow> 'a list \<Rightarrow> nat option" where
  "findIndex P [] = None"
| "findIndex P (x # xs) = (if P x then Some 0 else map_option Suc (findIndex P xs))"

text \<open>
  Lines 346-356, when \<^verbatim>\<open>debug\<close> is set: the line printed, and the two in-place sorts of
  the reached cluster's \<^verbatim>\<open>shardData\<close>, which is the array held in \<^verbatim>\<open>clusterDatas\<close>.
\<close>

definition debugReclustering :: "jsnum \<Rightarrow> clusterData \<Rightarrow> autoResharderManager \<Rightarrow> autoResharderManager" where
  "debugReclustering realCount rc s =
     (if debug (options s)
      then debugPrint (Reclustering (totalShards (manager s)) realCount (clusterId rc))
             (s\<lparr>clusterDatas :=
                  (case findIndex (reached (options s)) (clusterDatas s) of
                     None \<Rightarrow> clusterDatas s
                   | Some i \<Rightarrow>
                       (clusterDatas s)
                         [i := (clusterDatas s ! i)
                            \<lparr>shardData :=
                               sort_js byGuildCountDesc
                                 (sort_js byGuildCountDesc (shardData (clusterDatas s ! i)))\<rparr>])\<rparr>)
      else s)"

text \<open>
  Lines 321-370, from the test of \<^verbatim>\<open>manager.recluster\<close> to the call of
  \<^verbatim>\<open>recluster.start\<close>: the request the call is made with, or the error thrown before
  it. The state returned is the state while the call is awaited.
\<close>

definition startReCluster ::
  "(string \<Rightarrow> jsnum promise) \<Rightarrow> clusterData \<Rightarrow> autoResharderManager
     \<Rightarrow> reclusterRequest result \<times> autoResharderManager" where
  "startReCluster fetchRecommendedShards rc s =
     (if recluster (manager s) = None then (Threw MissingReClusterPlugin, s)
      else
        let s1 = s\<lparr>isReClustering := True\<rparr> in
        case newShardsCount fetchRecommendedShards s1 of
          Rejected \<Rightarrow> (Threw FetchRejected, s1)
        | Fulfilled n \<Rightarrow>
            let realCount = realShardCount n (totalShards (manager s1));
                s2 = debugReclustering realCount rc s1;
                final = finalShardsPerCluster s2
            in case array_keys realCount of
                 None \<Rightarrow> (Threw InvalidArrayLength, s2)
               | Some keys \<Rightarrow>
                   let (r, h) = alloc (store s2) keys;
                       req = \<lparr>req_restartOptions = restartOptions (options s2),
                              req_shardsPerClusters = final,
                              req_totalShards = realCount,
                              req_totalClusters = Math_ceil (js_div realCount final),
                              req_shardList = r\<rparr>
                   in (Returned req,
                       s2\<lparr>store := h, reclusterCalls := reclusterCalls s2 @ [req]\<rparr>))"

text \<open>Lines 364-377, after the \<^verbatim>\<open>await\<close>: a rejection is rethrown there.\<close>

definition settleReCluster ::
  "unit promise \<Rightarrow> autoResharderManager \<Rightarrow> unit result \<times> autoResharderManager" where
  "settleReCluster p s =
     (case p of
        Rejected \<Rightarrow> (Threw ReClusterRejected, s)
      | Fulfilled d \<Rightarrow>
          (Returned (),
           (if debug (options s) then debugPrint FinishedAutoresharding else id)
             (s\<lparr>isReClustering := False\<rparr>)))"

text \<open>Lines 317-378: the threshold scan and, when a cluster reached the threshold, the re-cluster.\<close>

definition scanAndReCluster ::
  "(string \<Rightarrow> jsnum promise) \<Rightarrow> autoResharderManager \<Rightarrow> unit result \<times> autoResharderManager" where
  "scanAndReCluster fetchRecommendedShards s =
     (case reachedCluster s of
        None \<Rightarrow> (Returned (), s)
      | Some rc \<Rightarrow>
          (case startReCluster fetchRecommendedShards rc s of
             (Threw e, s') \<Rightarrow> (Threw e, s')
           | (Returned req, s') \<Rightarrow>
               (case recluster (manager s') of
                  None \<Rightarrow> (Threw MissingReClusterPlugin, s')
                | Some start \<Rightarrow> settleReCluster (start req) s')))"

text \<open>
  The whole method. Line 310 compares a newly made array with \<^verbatim>\<open>manager.shardList\<close> by
  \<^verbatim>\<open>!=\<close>, which on two objects asks whether they are different objects.
\<close>

definition checkReCluster ::
  "(string \<Rightarrow> jsnum promise) \<Rightarrow> autoResharderManager \<Rightarrow> unit result \<times> autoResharderManager" where
  "checkReCluster fetchRecommendedShards s =
     (if length (clusterDatas s) \<le> length (clusterList (manager s))
      then (Returned (), (if debug (options s) then debugPrint NotAllReached else id) s)
      else
        let s1 = (if isReClustering s \<and> debug (options s) then debugPrint AlreadyReSharding s else s);
            (fresh, h) = alloc (store s1) [0 ..< totalShards (manager s1)];
            s2 = s1\<lparr>store := h\<rparr>
        in if fresh \<noteq> shardList (manager s2) then (Threw CustomShardList, s2)
           else scanAndReCluster fetchRecommendedShards s2)"

subsection \<open>The event handlers registered by initialize (lines 269-297)\<close>

text \<open>A message as the handler tests it: not an object, or with or without a \<^verbatim>\<open>raw\<close> member.\<close>

datatype message =
    NotAnObject
  | Plain "clusterData sendDataMessage"
  | Raw "clusterData sendDataMessage"

text \<open>Lines 272-275: a cluster is listened to once.\<close>

definition onClusterCreate :: "nat \<Rightarrow> autoResharderManager \<Rightarrow> autoResharderManager" where
  "onClusterCreate cid s =
     (if cid \<in> clustersListening s then s
      else s\<lparr>clustersListening := insert cid (clustersListening s)\<rparr>)"

text \<open>Lines 282-284.\<close>

definition upsertClusterData :: "clusterData \<Rightarrow> clusterData list \<Rightarrow> clusterData list" where
  "upsertClusterData d ds =
     (case findIndex (\<lambda>v. js_strict_eq (clusterId v) (clusterId d)) ds of
        None \<Rightarrow> ds @ [d]
      | Some index \<Rightarrow> ds[index := d])"

text \<open>
  Lines 277-280: the data of a message of the expected kind; anything else is ignored.
\<close>

definition received :: "message \<Rightarrow> clusterData option" where
  "received message =
     (case message of
        NotAnObject \<Rightarrow> None
      | Raw m \<Rightarrow> (if msg_type m \<noteq> CLIENT_AUTORESHARDER_SENDDATA then None else Some (data m))
      | Plain m \<Rightarrow> (if msg_type m \<noteq> CLIENT_AUTORESHARDER_SENDDATA then None else Some (data m)))"

text \<open>
  Lines 276-292, the handler of a message of the cluster with id \<open>cid\<close>. The promise of
  \<^verbatim>\<open>checkReCluster\<close> is not awaited, so its outcome is dropped; only its effect on the
  state remains.
\<close>

definition onMessage ::
  "(string \<Rightarrow> jsnum promise) \<Rightarrow> nat \<Rightarrow> message \<Rightarrow> autoResharderManager \<Rightarrow> autoResharderManager" where
  "onMessage fetchRecommendedShards cid message s =
     (case received message of
        None \<Rightarrow> s
      | Some d \<Rightarrow>
          let s1 = s\<lparr>clusterDatas := upsertClusterData d (clusterDatas s)\<rparr>;
              s2 = (if debug (options s1) then debugPrint (ReachedSendData cid d) s1 else s1)
          in snd (checkReCluster fetchRecommendedShards s2))"

text \<open>The handler run over a sequence of messages, each with the id of its cluster.\<close>

definition onMessages ::
  "(string \<Rightarrow> jsnum promise) \<Rightarrow> (nat \<times> message) list \<Rightarrow> autoResharderManager \<Rightarrow> autoResharderManager" where
  "onMessages fetchRecommendedShards ms s =
     foldl (\<lambda>s' m. onMessage fetchRecommendedShards (fst m) (snd m) s') s ms"

section \<open>AutoResharderClusterClient\<close>

subsection \<open>The cluster client, the options and the state\<close>

text \<open>
  What \<^verbatim>\<open>sendDataFunction\<close> returned, as \<^verbatim>\<open>sendData\<close> tests it: \<open>None\<close> is a value that
  is not an object, and a \<open>shardData\<close> of \<open>None\<close> is one that is not an array. A member
  that is missing is \<^term>\<open>Undefined\<close>.
\<close>

type_synonym rawShardData = "(jsval, jsval) shardDatum list option"
type_synonym rawSendData = "(jsval, rawShardData) autoResharderSendData"

text \<open>
  The \<^verbatim>\<open>ClusterClient\<close> is imported from a file that is not part of the sources; the
  plugin reads the members below, which are taken as given. \<open>SHARD_LIST\<close> is \<open>None\<close> when
  \<^verbatim>\<open>info\<close> is not an object or \<^verbatim>\<open>info.SHARD_LIST\<close> is not an array; \<open>send\<close> is \<open>None\<close> when
  it is not a function and otherwise the settled value of the call for each message;
  \<open>guildsOfShard\<close> is the number of guilds of the client's cache on a shard, which the
  default \<^verbatim>\<open>sendDataFunction\<close> reads.
\<close>

record clusterClient =
  cc_id :: jsval
  SHARD_LIST :: "nat list option"
  send :: "(rawSendData sendDataMessage \<Rightarrow> unit promise) option"
  guildsOfShard :: "nat \<Rightarrow> nat"

text \<open>\<open>sendDataFunction\<close> is \<open>None\<close> when the option is not a function.\<close>

record clientOptions =
  sendDataIntervalMS :: jsval
  sendDataFunction :: "(clusterClient \<Rightarrow> rawSendData option promise) option"
  c_debug :: bool

record partialClientOptions =
  p_sendDataIntervalMS :: "jsval option"
  p_sendDataFunction :: "(clusterClient \<Rightarrow> rawSendData option promise) option option"
  p_c_debug :: "bool option"

text \<open>The default options of lines 63-75.\<close>

definition defaultSendDataFunction :: "clusterClient \<Rightarrow> rawSendData option promise" where
  "defaultSendDataFunction cluster =
     (case SHARD_LIST cluster of
        None \<Rightarrow> Rejected
      | Some l \<Rightarrow>
          Fulfilled (Some
            \<lparr>clusterId = cc_id cluster,
             shardData = Some (map (\<lambda>sid. \<lparr>shardId = Number (Num (of_nat sid)),
                                           guildCount = Number (Num (of_nat (guildsOfShard cluster sid)))\<rparr>) l)\<rparr>))"

definition defaultClientOptions :: clientOptions where
  "defaultClientOptions =
     \<lparr>sendDataIntervalMS = Number (Num 60000),
      sendDataFunction = Some defaultSendDataFunction,
      c_debug = False\<rparr>"

definition mergeClientOptions :: "clientOptions \<Rightarrow> partialClientOptions option \<Rightarrow> clientOptions" where
  "mergeClientOptions d p =
     (case p of
        None \<Rightarrow> d
      | Some q \<Rightarrow>
          \<lparr>sendDataIntervalMS = override (sendDataIntervalMS d) (p_sendDataIntervalMS q),
           sendDataFunction = override (sendDataFunction d) (p_sendDataFunction q),
           c_debug = override (c_debug d) (p_c_debug q)\<rparr>)"

text \<open>
  The fields of the class (lines 61-79), together with the parts of the world its
  methods change: the timers that are armed (handle and period; \<^verbatim>\<open>setInterval\<close> hands
  out the next handle, \<^verbatim>\<open>clearInterval\<close> removes a timer), the messages
  \<^verbatim>\<open>clusterClient.send\<close> was called with, and the cluster ids the debug line of
  line 223 printed. \<open>clusterClient\<close> is \<open>None\<close> when the constructor's argument is not an
  object.
\<close>

record autoResharderClusterClient =
  clusterClient :: "clusterClient option"
  c_options :: clientOptions
  interval :: "nat option"
  started :: bool
  timers :: "(nat \<times> jsval) list"
  nextTimer :: nat
  sent :: "rawSendData sendDataMessage list"
  c_console :: "jsval list"

definition clearInterval :: "nat \<Rightarrow> autoResharderClusterClient \<Rightarrow> autoResharderClusterClient" where
  "clearInterval h s = s\<lparr>timers := filter (\<lambda>t. fst t \<noteq> h) (timers s)\<rparr>"

definition setInterval :: "jsval \<Rightarrow> autoResharderClusterClient \<Rightarrow> nat \<times> autoResharderClusterClient" where
  "setInterval ms s =
     (nextTimer s, s\<lparr>timers := timers s @ [(nextTimer s, ms)], nextTimer := Suc (nextTimer s)\<rparr>)"

subsection \<open>validate (lines 111-128)\<close>

definition Client_validate :: "autoResharderClusterClient \<Rightarrow> unit result" where
  "Client_validate s =
     (if (case clusterClient s of
            None \<Rightarrow> True
          | Some cc \<Rightarrow> typeof (cc_id cc) \<noteq> ''number'' \<or> SHARD_LIST cc = None \<or> send cc = None)
      then Threw InvalidClusterClient
      else if typeof (sendDataIntervalMS (c_options s)) \<noteq> ''number''
         \<or> js_lt (number_of (sendDataIntervalMS (c_options s))) (Num 1000)
      then Threw InvalidSendDataIntervalMS
      else if sendDataFunction (c_options s) = None
      then Threw InvalidSendDataFunction
      else Returned ())"

subsection \<open>sendData (lines 200-229)\<close>

text \<open>The test of lines 205-217.\<close>

definition invalidSendData :: "rawSendData option \<Rightarrow> bool" where
  "invalidSendData sendData =
     (case sendData of
        None \<Rightarrow> True
      | Some d \<Rightarrow>
          typeof (clusterId d) \<noteq> ''number''
          \<or> js_lt (number_of (clusterId d)) (Num 0)
          \<or> (case shardData d of
                None \<Rightarrow> True
              | Some xs \<Rightarrow>
                  list_ex (\<lambda>v. typeof (guildCount v) \<noteq> ''number''
                               \<or> js_lt (number_of (guildCount v)) (Num 0)
                               \<or> typeof (shardId v) \<noteq> ''number''
                               \<or> js_lt (number_of (shardId v)) (Num 0)) xs))"

text \<open>
  \<^verbatim>\<open>sendData\<close> is asynchronous: an error below is the rejection of its promise. The
  branches for a missing client, function or \<^verbatim>\<open>send\<close> repeat what \<^verbatim>\<open>validate\<close> has
  just thrown for them, so they are never taken.
\<close>

definition sendData :: "autoResharderClusterClient \<Rightarrow> unit result \<times> autoResharderClusterClient" where
  "sendData s =
     (case Client_validate s of
        Threw e \<Rightarrow> (Threw e, s)
      | Returned _ \<Rightarrow>
          (case (clusterClient s, sendDataFunction (c_options s)) of
             (None, _) \<Rightarrow> (Threw InvalidClusterClient, s)
           | (Some cc, None) \<Rightarrow> (Threw InvalidSendDataFunction, s)
           | (Some cc, Some f) \<Rightarrow>
               (case f cc of
                  Rejected \<Rightarrow> (Threw SendDataFunctionRejected, s)
                | Fulfilled v \<Rightarrow>
                    if invalidSendData v then (Threw InvalidSendData, s)
                    else
                      (case (v, send cc) of
                         (None, _) \<Rightarrow> (Threw InvalidSendData, s)
                       | (Some d, None) \<Rightarrow> (Threw InvalidClusterClient, s)
                       | (Some d, Some deliver) \<Rightarrow>
                           let s1 = (if c_debug (c_options s)
                                     then s\<lparr>c_console := c_console s @ [clusterId d]\<rparr> else s);
                               msg = \<lparr>data = d, msg_type = CLIENT_AUTORESHARDER_SENDDATA\<rparr>;
                               s2 = s1\<lparr>sent := sent s1 @ [msg]\<rparr>
                           in (case deliver msg of
                                 Rejected \<Rightarrow> (Threw SendRejected, s2)
                               | Fulfilled _ \<Rightarrow> (Returned (), s2))))))"

subsection \<open>initialize, the constructor, stop, start and reStart\<close>

text \<open>
  Lines 187-198. The old timer is cleared but the field keeps its handle until the new
  timer is stored; when the immediate \<^verbatim>\<open>sendData\<close> fails, no timer is armed.
\<close>

definition initialize :: "bool \<Rightarrow> autoResharderClusterClient \<Rightarrow> bool result \<times> autoResharderClusterClient" where
  "initialize executeSendData s =
     (let s1 = (case interval s of None \<Rightarrow> s | Some h \<Rightarrow> clearInterval h s) in
      case (if executeSendData then sendData s1 else (Returned (), s1)) of
        (Threw e, s2) \<Rightarrow> (Threw e, s2)
      | (Returned _, s2) \<Rightarrow>
          let (h, s3) = setInterval (sendDataIntervalMS (c_options s2)) s2
          in (Returned True, s3\<lparr>interval := Some h\<rparr>))"

text \<open>Lines 102-110; the promise of \<^verbatim>\<open>initialize\<close> is not awaited.\<close>

definition AutoResharderClusterClient ::
  "clusterClient option \<Rightarrow> partialClientOptions option \<Rightarrow> autoResharderClusterClient result" where
  "AutoResharderClusterClient cc opts =
     (let s = \<lparr>clusterClient = cc, c_options = mergeClientOptions defaultClientOptions opts,
               interval = None, started = False, timers = [], nextTimer = 0, sent = [],
               c_console = []\<rparr>
      in case Client_validate s of
           Threw e \<Rightarrow> Threw e
         | Returned _ \<Rightarrow> Returned (snd (initialize False s)))"

text \<open>Lines 133-141.\<close>

definition stop :: "autoResharderClusterClient \<Rightarrow> bool result \<times> autoResharderClusterClient" where
  "stop s =
     (let s1 = (case interval s of
                  None \<Rightarrow> s
                | Some h \<Rightarrow> (clearInterval h s)\<lparr>interval := None\<rparr>)
      in if started s1 = False then (Threw NotRunning, s1) else (Returned True, s1))"

text \<open>Lines 149-159.\<close>

definition start ::
  "partialClientOptions option \<Rightarrow> bool \<Rightarrow> autoResharderClusterClient
     \<Rightarrow> bool result \<times> autoResharderClusterClient" where
  "start newOptions executeSendData s =
     (if started s = True then (Threw AlreadyStarted, s)
      else initialize executeSendData
             (s\<lparr>c_options := mergeClientOptions (c_options s) newOptions\<rparr>))"

text \<open>Lines 167-181.\<close>

definition reStart ::
  "partialClientOptions option \<Rightarrow> bool \<Rightarrow> autoResharderClusterClient
     \<Rightarrow> bool result \<times> autoResharderClusterClient" where
  "reStart newOptions executeSendData s =
     (let s1 = (case interval s of
                  None \<Rightarrow> s
                | Some h \<Rightarrow> (clearInterval h s)\<lparr>interval := None\<rparr>)
      in initialize executeSendData
           (s1\<lparr>c_options := mergeClientOptions (c_options s1) newOptions\<rparr>))"

text \<open>
  The callback of line 195: the timer with handle \<open>h\<close> fires. A timer that is not armed
  does not fire (\<open>None\<close>).
\<close>

definition timerFires ::
  "nat \<Rightarrow> autoResharderClusterClient \<Rightarrow> (unit result \<times> autoResharderClusterClient) option" where
  "timerFires h s = (if h \<in> fst ` set (timers s) then Some (sendData s) else None)"

section \<open>Concrete fleets\<close>

text \<open>
  Options that pass \<^const>\<open>Manager_validate\<close>, a cluster manager with the default shard
  list \<open>0..n-1\<close> (the array at reference 0 of the store), and the plugin over them.
\<close>

definition numericOptions :: managerOptions where
  "numericOptions =
     \<lparr>ShardsPerCluster = Number (Num 2), MinGuildsPerShard = Number (Num 1000),
      MaxGuildsPerShard = Number (Num 2000), restartOptions = defaultRestartOptions,
      debug = True\<rparr>"

definition fleet :: "nat list \<Rightarrow> nat \<Rightarrow> (reclusterRequest \<Rightarrow> unit promise) \<Rightarrow> clusterManager" where
  "fleet cl n exec =
     \<lparr>clusterList = cl, totalShards = n, shardList = 0, shardsPerClusters = Some 2,
      totalClusters = length cl, token = ''token'', recluster = Some exec\<rparr>"

definition coordinator :: "clusterManager \<Rightarrow> clusterData list \<Rightarrow> autoResharderManager" where
  "coordinator m ds =
     \<lparr>manager = m, clusterDatas = ds, options = numericOptions, clustersListening = {},
      isReClustering = False, store = [[0 ..< totalShards m]], console = [],
      reclusterCalls = []\<rparr>"

definition report :: "nat \<Rightarrow> (nat \<times> real) list \<Rightarrow> clusterData" where
  "report c xs =
     \<lparr>clusterId = Num (of_nat c),
      shardData = map (\<lambda>(i, g). \<lparr>shardId = Num (of_nat i), guildCount = Num g\<rparr>) xs\<rparr>"

definition sendDataOf :: "clusterData \<Rightarrow> message" where
  "sendDataOf d = Plain \<lparr>data = d, msg_type = CLIENT_AUTORESHARDER_SENDDATA\<rparr>"

text \<open>
  One cluster known to the manager, two shards \<open>[0, 1]\<close>, data of two clusters in the
  table, and shard 0 at 2500 guilds.
\<close>

definition reachedFleet :: "(reclusterRequest \<Rightarrow> unit promise) \<Rightarrow> autoResharderManager" where
  "reachedFleet exec = coordinator (fleet [0] 2 exec) [report 0 [(0, 2500)], report 1 [(1, 10)]]"

text \<open>Three clusters known to the manager, and the data of each of them arriving in turn.\<close>

definition afterThree ::
  "(string \<Rightarrow> jsnum promise) \<Rightarrow> (reclusterRequest \<Rightarrow> unit promise) \<Rightarrow> autoResharderManager" where
  "afterThree f exec =
     onMessages f
       [(0, sendDataOf (report 0 [(0, 10)])),
        (1, sendDataOf (report 1 [(1, 10)])),
        (2, sendDataOf (report 2 [(2, 2500)]))]
       (coordinator (fleet [0, 1, 2] 3 exec) [])"





text \<open>Messages of two clusters, cluster 0 sending twice, and one message that is no object.\<close>

definition twoClusters :: "(nat \<times> message) list" where
  "twoClusters =
     [(0, sendDataOf (report 0 [(0, 10)])),
      (1, sendDataOf (report 1 [(1, 10)])),
      (1, NotAnObject),
      (0, sendDataOf (report 0 [(0, 20)]))]"

text \<open>Two messages of a cluster whose data carries \<^verbatim>\<open>NaN\<close> as its \<^verbatim>\<open>clusterId\<close>.\<close>

definition unnumbered :: clusterData where
  "unnumbered = \<lparr>clusterId = NaN, shardData = [\<lparr>shardId = Num 0, guildCount = Num 10\<rparr>]\<rparr>"

definition unnumberedTwice :: "(nat \<times> message) list" where
  "unnumberedTwice = [(0, sendDataOf unnumbered), (0, sendDataOf unnumbered)]"



text \<open>An entry of the table whose \<^verbatim>\<open>clusterId\<close> is a number other than \<^verbatim>\<open>NaN\<close>.\<close>

definition numbered :: "clusterData \<Rightarrow> bool" where
  "numbered v = (clusterId v \<noteq> NaN)"

text \<open>The data of the messages of the expected kind among a sequence of messages, in order.\<close>

definition reports :: "(nat \<times> message) list \<Rightarrow> clusterData list" where
  "reports ms = List.map_filter (\<lambda>m. received (snd m)) ms"

section \<open>Concrete cluster clients\<close>

text \<open>
  A cluster client with id 0 and shards 0 and 1, and the state its plugin has when the
  constructor returns: the timer with handle 0 is armed at the default 60000 ms.
\<close>

definition worker :: clusterClient where
  "worker =
     \<lparr>cc_id = Number (Num 0), SHARD_LIST = Some [0, 1],
      send = Some (\<lambda>msg. Fulfilled ()), guildsOfShard = (\<lambda>sid. 100)\<rparr>"

definition reporter :: autoResharderClusterClient where
  "reporter =
     \<lparr>clusterClient = Some worker, c_options = defaultClientOptions, interval = Some 0,
      started = False, timers = [(0, Number (Num 60000))], nextTimer = 1, sent = [],
      c_console = []\<rparr>"

text \<open>The same plugin with a \<^verbatim>\<open>sendDataFunction\<close> that returns the given data.\<close>

definition reporting :: "rawSendData \<Rightarrow> autoResharderClusterClient" where
  "reporting d =
     reporter\<lparr>c_options :=
       (c_options reporter)\<lparr>sendDataFunction := Some (\<lambda>c. Fulfilled (Some d))\<rparr>\<rparr>"

definition negativeShard :: rawSendData where
  "negativeShard =
     \<lparr>clusterId = Number (Num 0),
      shardData = Some [\<lparr>shardId = Number (Num (- 1)), guildCount = Number (Num 5)\<rparr>]\<rparr>"

definition wellShaped :: rawSendData where
  "wellShaped =
     \<lparr>clusterId = Number (Num 0),
      shardData = Some [\<lparr>shardId = Number (Num 0), guildCount = Number (Num 5)\<rparr>]\<rparr>"

section \<open>The manager's validation\<close>

lemmas manager_example_defs =
  coordinator_def fleet_def numericOptions_def report_def sendDataOf_def reachedFleet_def

lemma Manager_validate_useManagerOption:
  "ShardsPerCluster opts = Str ''useManagerOption'' \<Longrightarrow>
   Manager_validate m opts = Threw InvalidShardsPerCluster"
  by (simp add: Manager_validate_def)

lemma Manager_validate_auto:
  "MinGuildsPerShard opts = Str ''auto'' \<Longrightarrow> Manager_validate m opts \<noteq> Returned ()"
  by (simp add: Manager_validate_def)



text \<open>
  C2. The claim: constructing the manager plugin with the sentinel values of its option
  type (\<^verbatim>\<open>ShardsPerCluster: 'useManagerOption'\<close>, or \<^verbatim>\<open>MinGuildsPerShard: 'auto'\<close> with
  \<^verbatim>\<open>MaxGuildsPerShard > 2000\<close>) passes validation, and so does the default configuration.
  The code: the \<^verbatim>\<open>else if\<close> of lines 385 and 391 throws for every value that is not a
  number, the sentinels included. For every cluster manager, the constructor without
  options (the defaults, whose \<^verbatim>\<open>ShardsPerCluster\<close> is the sentinel) throws the
  SyntaxError of \<^verbatim>\<open>ShardsPerCluster\<close>, and with a numeric \<^verbatim>\<open>ShardsPerCluster\<close>,
  \<^verbatim>\<open>MinGuildsPerShard: 'auto'\<close> and \<^verbatim>\<open>MaxGuildsPerShard: 2100\<close> it throws the SyntaxError of
  \<^verbatim>\<open>MinGuildsPerShard\<close>.
\<close>

theorem constructor_rejects_sentinels:
  "AutoResharderManager h m None = Threw InvalidShardsPerCluster
   \<and> AutoResharderManager h m
       (Some \<lparr>p_ShardsPerCluster = Some (Number (Num 2)),
              p_MinGuildsPerShard = Some (Str ''auto''),
              p_MaxGuildsPerShard = Some (Number (Num 2100)),
              p_restartOptions = None, p_debug = None\<rparr>)
     = Threw InvalidMinGuildsPerShard"
  by (simp add: AutoResharderManager_def mergeManagerOptions_def defaultManagerOptions_def
      Manager_validate_def override_def)

text \<open>With numbers for both options the constructor succeeds.\<close>

lemma constructor_numeric:
  "AutoResharderManager [[0 ..< n]] (fleet cl n exec)
     (Some \<lparr>p_ShardsPerCluster = Some (Number (Num 2)),
            p_MinGuildsPerShard = Some (Number (Num 1000)),
            p_MaxGuildsPerShard = Some (Number (Num 2000)),
            p_restartOptions = None, p_debug = None\<rparr>)
   = Returned (coordinator (fleet cl n exec) [])"
  by (simp add: AutoResharderManager_def mergeManagerOptions_def defaultManagerOptions_def
      Manager_validate_def override_def coordinator_def fleet_def numericOptions_def
      mergeRestartOptions_def)

section \<open>The decision cycle\<close>

text \<open>
  The manager's shard list is an array of the store, so the array line 310 makes is a
  different object: once the first test is passed, the cycle throws.
\<close>

lemma checkReCluster_all_reached:
  assumes "shardList (manager s) < length (store s)"
    and "length (clusterList (manager s)) < length (clusterDatas s)"
  shows "fst (checkReCluster f s) = Threw CustomShardList"
    and "clusterDatas (snd (checkReCluster f s)) = clusterDatas s"
    and "reclusterCalls (snd (checkReCluster f s)) = reclusterCalls s"
    and "manager (snd (checkReCluster f s)) = manager s"
    and "length (store s) \<le> length (store (snd (checkReCluster f s)))"
    and "isReClustering (snd (checkReCluster f s)) = isReClustering s"
    and "options (snd (checkReCluster f s)) = options s"
    and "console (snd (checkReCluster f s)) =
           console s @ (if isReClustering s \<and> debug (options s) then [AlreadyReSharding] else [])"
  using assms by (simp_all add: checkReCluster_def alloc_def debugPrint_def Let_def)

lemma checkReCluster_not_all_reached:
  assumes "length (clusterDatas s) \<le> length (clusterList (manager s))"
  shows "fst (checkReCluster f s) = Returned ()"
    and "clusterDatas (snd (checkReCluster f s)) = clusterDatas s"
    and "reclusterCalls (snd (checkReCluster f s)) = reclusterCalls s"
    and "manager (snd (checkReCluster f s)) = manager s"
    and "store (snd (checkReCluster f s)) = store s"
    and "isReClustering (snd (checkReCluster f s)) = isReClustering s"
    and "options (snd (checkReCluster f s)) = options s"
    and "console (snd (checkReCluster f s)) =
           console s @ (if debug (options s) then [NotAllReached] else [])"
  using assms by (simp_all add: checkReCluster_def debugPrint_def)

text \<open>
  C1. The claim: with the contiguous shard list \<open>0..totalShards-1\<close> in effect the cycle
  does not fail with the error of line 312 and goes on to the threshold scan. The code:
  \<^verbatim>\<open>!=\<close> compares the new array with the manager's array as objects, so the test of
  line 310 holds for every shard list. Here the manager has two shards and the shard
  list \<open>[0, 1]\<close>, the table holds more entries than there are clusters, and the cycle
  throws the RangeError of line 312.
\<close>

theorem contiguous_shardList_throws:
  "totalShards (manager (reachedFleet exec)) = 2
   \<and> deref (store (reachedFleet exec)) (shardList (manager (reachedFleet exec))) = [0, 1]
   \<and> fst (checkReCluster f (reachedFleet exec)) = Threw CustomShardList
   \<and> reclusterCalls (snd (checkReCluster f (reachedFleet exec))) = []"
  by (simp add: checkReCluster_def manager_example_defs alloc_def debugPrint_def deref_def
      upt_rec)

text \<open>
  C3. The claim: with \<open>w\<close> known clusters the decision proceeds once \<open>w\<close> distinct reports
  are in the table. The code: line 300 returns while the table has at most as many
  entries as \<^verbatim>\<open>manager.clusterList\<close>, so with three known clusters and the data of
  clusters 0, 1 and 2 in the table the cycle still ends at line 303 with
  'Not all cluster data(s) reached yet', after the third message as after the first two.
\<close>

theorem three_clusters_three_reports_return:
  "clusterList (manager (afterThree f exec)) = [0, 1, 2]
   \<and> clusterDatas (afterThree f exec)
       = [report 0 [(0, 10)], report 1 [(1, 10)], report 2 [(2, 2500)]]
   \<and> console (afterThree f exec)
       = [ReachedSendData 0 (report 0 [(0, 10)]), NotAllReached,
          ReachedSendData 1 (report 1 [(1, 10)]), NotAllReached,
          ReachedSendData 2 (report 2 [(2, 2500)]), NotAllReached]
   \<and> reclusterCalls (afterThree f exec) = []
   \<and> checkReCluster f (afterThree f exec)
       = (Returned (), debugPrint NotAllReached (afterThree f exec))"
  by (simp add: afterThree_def onMessages_def onMessage_def received_def
      upsertClusterData_def checkReCluster_def debugPrint_def manager_example_defs)

section \<open>The guard flag\<close>

text \<open>
  While the manager's shard list is an array of the store, \<^const>\<open>checkReCluster\<close> returns
  at line 303 or throws at line 312: it never reaches lines 317-378, so it makes no
  call of \<^verbatim>\<open>recluster.start\<close> and leaves the flag and the table as they are.
\<close>

lemma checkReCluster_keeps:
  assumes "shardList (manager s) < length (store s)"
  shows "clusterDatas (snd (checkReCluster f s)) = clusterDatas s"
    and "manager (snd (checkReCluster f s)) = manager s"
    and "length (store s) \<le> length (store (snd (checkReCluster f s)))"
    and "reclusterCalls (snd (checkReCluster f s)) = reclusterCalls s"
    and "isReClustering (snd (checkReCluster f s)) = isReClustering s"
  using assms
  by (cases "length (clusterDatas s) \<le> length (clusterList (manager s))";
      simp add: checkReCluster_all_reached checkReCluster_not_all_reached)+

lemma onMessage_keeps:
  assumes "shardList (manager s) < length (store s)"
  shows "clusterDatas (onMessage f cid m s) =
           (case received m of
              None \<Rightarrow> clusterDatas s
            | Some d \<Rightarrow> upsertClusterData d (clusterDatas s))"
    and "shardList (manager (onMessage f cid m s)) < length (store (onMessage f cid m s))"
    and "reclusterCalls (onMessage f cid m s) = reclusterCalls s"
    and "isReClustering (onMessage f cid m s) = isReClustering s"
proof -
  show "clusterDatas (onMessage f cid m s) =
           (case received m of
              None \<Rightarrow> clusterDatas s
            | Some d \<Rightarrow> upsertClusterData d (clusterDatas s))"
    using assms
    by (simp add: onMessage_def Let_def debugPrint_def checkReCluster_keeps
        split: option.splits)
  show "reclusterCalls (onMessage f cid m s) = reclusterCalls s"
    using assms
    by (simp add: onMessage_def Let_def debugPrint_def checkReCluster_keeps
        split: option.splits)
  show "isReClustering (onMessage f cid m s) = isReClustering s"
    using assms
    by (simp add: onMessage_def Let_def debugPrint_def checkReCluster_keeps
        split: option.splits)
  show "shardList (manager (onMessage f cid m s)) < length (store (onMessage f cid m s))"
  proof (cases "received m")
    case None
    then show ?thesis using assms by (simp add: onMessage_def)
  next
    case (Some d)
    define s2 where
      "s2 = (if debug (options s)
             then debugPrint (ReachedSendData cid d)
                    (s\<lparr>clusterDatas := upsertClusterData d (clusterDatas s)\<rparr>)
             else s\<lparr>clusterDatas := upsertClusterData d (clusterDatas s)\<rparr>)"
    have wf2: "shardList (manager s2) < length (store s2)"
      using assms by (simp add: s2_def debugPrint_def)
    have eq: "onMessage f cid m s = snd (checkReCluster f s2)"
      using Some by (simp add: onMessage_def Let_def s2_def)
    from checkReCluster_keeps(2,3)[OF wf2, of f] wf2 show ?thesis
      unfolding eq by simp
  qed
qed


text \<open>
  The test of lines 306-308 itself only prints: it does not return, and the lines after
  line 316 do not read the flag (a plugin is attached in every state the constructor
  returns).
\<close>

lemma startReCluster_ignores_flag:
  "startReCluster f rc (s\<lparr>isReClustering := b\<rparr>) =
     (if recluster (manager s) = None
      then (Threw MissingReClusterPlugin, s\<lparr>isReClustering := b\<rparr>)
      else startReCluster f rc s)"
  by (simp add: startReCluster_def newShardsCount_def)



text \<open>
  Lines 364-372 on their own: the flag is set before the call and cleared only after a
  fulfilled one; a rejection is rethrown by the \<^verbatim>\<open>await\<close> with the flag still set.
\<close>

lemma startReCluster_sets_flag:
  "startReCluster f rc s = (Returned req, s') \<Longrightarrow> isReClustering s'"
  by (auto simp: startReCluster_def Let_def debugReclustering_def debugPrint_def
      split: if_splits promise.splits option.splits prod.splits)

lemma settleReCluster_Rejected: "settleReCluster Rejected s = (Threw ReClusterRejected, s)"
  by (simp add: settleReCluster_def)

lemma settleReCluster_Fulfilled: "\<not> isReClustering (snd (settleReCluster (Fulfilled u) s))"
  by (simp add: settleReCluster_def debugPrint_def)

section \<open>The table of cluster data\<close>

lemma js_strict_eq_iff: "js_strict_eq a b \<longleftrightarrow> a = b \<and> a \<noteq> NaN"
  by (cases a; cases b) simp_all

lemma upsertClusterData_Nil: "upsertClusterData d [] = [d]"
  by (simp add: upsertClusterData_def)

lemma upsertClusterData_Cons:
  "upsertClusterData d (x # xs) =
     (if js_strict_eq (clusterId x) (clusterId d) then d # xs else x # upsertClusterData d xs)"
  by (simp add: upsertClusterData_def split: option.splits)

lemma ids_upsertClusterData:
  "clusterId ` set (upsertClusterData d ds) = insert (clusterId d) (clusterId ` set ds)"
  by (induction ds) (auto simp: upsertClusterData_Nil upsertClusterData_Cons js_strict_eq_iff)

lemma numbered_ids_upsertClusterData:
  "clusterId ` set (filter numbered (upsertClusterData d ds))
     \<subseteq> insert (clusterId d) (clusterId ` set (filter numbered ds))"
  by (induction ds)
     (auto simp: upsertClusterData_Nil upsertClusterData_Cons js_strict_eq_iff numbered_def)

lemma distinct_upsertClusterData:
  "distinct (map clusterId (filter numbered ds)) \<Longrightarrow>
   distinct (map clusterId (filter numbered (upsertClusterData d ds)))"
proof (induction ds)
  case Nil
  then show ?case by (simp add: upsertClusterData_Nil)
next
  case (Cons x xs)
  show ?case
  proof (cases "js_strict_eq (clusterId x) (clusterId d)")
    case True
    then have "clusterId d = clusterId x" "numbered x" "numbered d"
      by (auto simp: js_strict_eq_iff numbered_def)
    with Cons.prems True show ?thesis by (simp add: upsertClusterData_Cons)
  next
    case False
    have tail: "distinct (map clusterId (filter numbered (upsertClusterData d xs)))"
      using Cons by (simp split: if_splits)
    show ?thesis
    proof (cases "numbered x")
      case True
      with False have "clusterId x \<noteq> clusterId d"
        by (auto simp: js_strict_eq_iff numbered_def)
      moreover from Cons.prems True
      have "clusterId x \<notin> clusterId ` set (filter numbered xs)" by simp
      ultimately have "clusterId x \<notin> clusterId ` set (filter numbered (upsertClusterData d xs))"
        using numbered_ids_upsertClusterData[of d xs] by auto
      with tail True False show ?thesis by (simp add: upsertClusterData_Cons)
    next
      case nn: False
      with tail False show ?thesis by (simp add: upsertClusterData_Cons)
    qed
  qed
qed

lemma find_upsertClusterData:
  "List.find (\<lambda>v. js_strict_eq (clusterId v) w) (upsertClusterData d ds) =
     (if js_strict_eq (clusterId d) w then Some d
      else List.find (\<lambda>v. js_strict_eq (clusterId v) w) ds)"
  by (induction ds) (auto simp: upsertClusterData_Nil upsertClusterData_Cons js_strict_eq_iff)

lemma onMessages_table:
  "shardList (manager s) < length (store s) \<Longrightarrow>
   clusterDatas (onMessages f ms s) =
     foldl (\<lambda>ds d. upsertClusterData d ds) (clusterDatas s) (reports ms)"
proof (induction ms arbitrary: s)
  case Nil
  then show ?case by (simp add: onMessages_def reports_def map_filter_simps)
next
  case (Cons m ms)
  have step: "onMessages f (m # ms) s = onMessages f ms (onMessage f (fst m) (snd m) s)"
    by (simp add: onMessages_def)
  show ?case
    unfolding step
    using Cons.IH[OF onMessage_keeps(2)[OF Cons.prems]]
      onMessage_keeps(1)[OF Cons.prems, of f "fst m" "snd m"]
    by (cases "received (snd m)") (simp_all add: reports_def map_filter_simps)
qed

lemma foldl_upsert_distinct:
  "distinct (map clusterId (filter numbered ds)) \<Longrightarrow>
   distinct (map clusterId (filter numbered (foldl (\<lambda>ds d. upsertClusterData d ds) ds rs)))"
  by (induction rs arbitrary: ds) (simp_all add: distinct_upsertClusterData)

lemma find_append_cases:
  "List.find P (xs @ ys) =
     (case List.find P xs of None \<Rightarrow> List.find P ys | Some x \<Rightarrow> Some x)"
  by (induction xs) simp_all

lemma foldl_upsert_find:
  "List.find (\<lambda>v. js_strict_eq (clusterId v) w)
     (foldl (\<lambda>ds d. upsertClusterData d ds) ds rs) =
   List.find (\<lambda>v. js_strict_eq (clusterId v) w) (rev rs @ ds)"
  by (induction rs arbitrary: ds)
     (auto simp: find_upsertClusterData find_append_cases split: option.splits)

lemma foldl_upsert_ids:
  "clusterId ` set (foldl (\<lambda>ds d. upsertClusterData d ds) ds rs) =
   clusterId ` set rs \<union> clusterId ` set ds"
  by (induction rs arbitrary: ds) (auto simp: ids_upsertClusterData)

text \<open>
  C10, as stated, fails for a \<^verbatim>\<open>clusterId\<close> that is \<^verbatim>\<open>NaN\<close>: line 282 looks the entry up
  with \<^verbatim>\<open>===\<close>, which \<^verbatim>\<open>NaN\<close> never satisfies, so each message with that id is pushed as
  a further entry. After two such messages the table of a new plugin holds two entries
  with the same \<^verbatim>\<open>clusterId\<close>.
\<close>

theorem nan_id_pushed_twice:
  "reports unnumberedTwice = [unnumbered, unnumbered]
   \<and> map clusterId (clusterDatas (onMessages (\<lambda>t. Rejected) unnumberedTwice
        (coordinator (fleet [0, 1, 2] 3 (\<lambda>req. Fulfilled ())) []))) = [NaN, NaN]
   \<and> \<not> distinct (map clusterId (clusterDatas (onMessages (\<lambda>t. Rejected) unnumberedTwice
        (coordinator (fleet [0, 1, 2] 3 (\<lambda>req. Fulfilled ())) []))))"
  by (simp add: unnumberedTwice_def unnumbered_def reports_def received_def
      map_filter_simps onMessages_def onMessage_def upsertClusterData_def
      checkReCluster_def debugPrint_def manager_example_defs)

text \<open>
  C10, amended. For a plugin whose manager's shard list is an array of the store and
  whose table holds at most one entry per \<^verbatim>\<open>clusterId\<close> other than \<^verbatim>\<open>NaN\<close> (the table of a
  new plugin is empty), after the handler has run over any sequence of messages: the
  table holds at most one entry per \<^verbatim>\<open>clusterId\<close> other than \<^verbatim>\<open>NaN\<close>; the entry that
  \<^verbatim>\<open>===\<close> finds for a cluster id \<open>w\<close> is the last data received with that id, or the entry
  the table had for it when none was received; and the ids in the table are those it had
  and those received, so no entry is removed.
\<close>

theorem table_upsert:
  assumes "shardList (manager s) < length (store s)"
    and "distinct (map clusterId (filter numbered (clusterDatas s)))"
  shows "distinct (map clusterId (filter numbered (clusterDatas (onMessages f ms s))))
     \<and> List.find (\<lambda>v. js_strict_eq (clusterId v) w) (clusterDatas (onMessages f ms s))
         = List.find (\<lambda>v. js_strict_eq (clusterId v) w) (rev (reports ms) @ clusterDatas s)
     \<and> clusterId ` set (clusterDatas (onMessages f ms s))
         = clusterId ` set (reports ms) \<union> clusterId ` set (clusterDatas s)"
  using assms
  by (simp add: onMessages_table foldl_upsert_distinct foldl_upsert_find foldl_upsert_ids)

theorem table_upsert_witness:
  "shardList (manager (coordinator (fleet [0, 1, 2] 3 (\<lambda>req. Fulfilled ())) []))
     < length (store (coordinator (fleet [0, 1, 2] 3 (\<lambda>req. Fulfilled ())) []))
   \<and> distinct (map clusterId (filter numbered
        (clusterDatas (coordinator (fleet [0, 1, 2] 3 (\<lambda>req. Fulfilled ())) []))))
   \<and> distinct (map clusterId (filter numbered (clusterDatas
        (onMessages (\<lambda>t. Rejected) twoClusters
           (coordinator (fleet [0, 1, 2] 3 (\<lambda>req. Fulfilled ())) [])))))
   \<and> List.find (\<lambda>v. js_strict_eq (clusterId v) (Num 0)) (clusterDatas
        (onMessages (\<lambda>t. Rejected) twoClusters
           (coordinator (fleet [0, 1, 2] 3 (\<lambda>req. Fulfilled ())) [])))
       = Some (report 0 [(0, 20)])
   \<and> clusterId ` set (clusterDatas
        (onMessages (\<lambda>t. Rejected) twoClusters
           (coordinator (fleet [0, 1, 2] 3 (\<lambda>req. Fulfilled ())) [])))
       = {Num 0, Num 1}"
proof -
  let ?s = "coordinator (fleet [0, 1, 2] 3 (\<lambda>req. Fulfilled ())) []"
  have h1: "shardList (manager ?s) < length (store ?s)"
    by (simp add: manager_example_defs)
  have h2: "distinct (map clusterId (filter numbered (clusterDatas ?s)))"
    by (simp add: manager_example_defs)
  have r: "reports twoClusters = [report 0 [(0, 10)], report 1 [(1, 10)], report 0 [(0, 20)]]"
    by (simp add: reports_def twoClusters_def received_def sendDataOf_def map_filter_simps)
  from table_upsert[OF h1 h2, of "\<lambda>t. Rejected" twoClusters "Num 0"] h1 h2 show ?thesis
    by (auto simp add: r report_def coordinator_def)
qed

section \<open>Rounding\<close>

lemma bits_rec: "2 \<le> n \<Longrightarrow> bits n = Suc (bits (n div 2))" "n < 2 \<Longrightarrow> bits n = 0"
  by (simp_all add: bits.simps[of n])

lemma bits_bounds: "0 < n \<Longrightarrow> 2 ^ bits n \<le> n \<and> n < 2 ^ (bits n + 1)"
proof (induction n rule: bits.induct)
  case (1 n)
  show ?case
  proof (cases "n < 2")
    case True
    with 1 have "n = 1" by simp
    then show ?thesis by (simp add: bits_rec)
  next
    case False
    then have pos: "0 < n div 2" by simp
    from 1(1)[OF False pos]
    have "2 ^ bits (n div 2) \<le> n div 2" "n div 2 < 2 ^ (bits (n div 2) + 1)"
      by simp_all
    then have "2 * 2 ^ bits (n div 2) \<le> n" "n < 2 * 2 ^ (bits (n div 2) + 1)"
      by linarith+
    then show ?thesis using False by (simp add: bits_rec)
  qed
qed

lemma exponent_ge1:
  assumes "1 \<le> x"
  shows "exponent x = int (bits (nat \<lfloor>x\<rfloor>))"
    and "2 ^ bits (nat \<lfloor>x\<rfloor>) \<le> x"
    and "x < 2 ^ (bits (nat \<lfloor>x\<rfloor>) + 1)"
proof -
  from assms have ax: "\<bar>x\<bar> = x" by simp
  show "exponent x = int (bits (nat \<lfloor>x\<rfloor>))"
    using assms by (simp add: exponent_def ax)
  from assms have fl1: "1 \<le> \<lfloor>x\<rfloor>" by simp
  then have pos: "0 < nat \<lfloor>x\<rfloor>" by simp
  from bits_bounds[OF pos]
  have lo: "2 ^ bits (nat \<lfloor>x\<rfloor>) \<le> nat \<lfloor>x\<rfloor>"
    and hi: "nat \<lfloor>x\<rfloor> < 2 ^ (bits (nat \<lfloor>x\<rfloor>) + 1)" by simp_all
  have nx: "real (nat \<lfloor>x\<rfloor>) = of_int \<lfloor>x\<rfloor>" using fl1 by simp
  from lo have "real (2 ^ bits (nat \<lfloor>x\<rfloor>)) \<le> real (nat \<lfloor>x\<rfloor>)"
    by (rule of_nat_mono)
  then have "2 ^ bits (nat \<lfloor>x\<rfloor>) \<le> (of_int \<lfloor>x\<rfloor> :: real)" by (simp add: nx)
  also have "\<dots> \<le> x" by simp
  finally show "2 ^ bits (nat \<lfloor>x\<rfloor>) \<le> x" .
  from hi have "Suc (nat \<lfloor>x\<rfloor>) \<le> 2 ^ (bits (nat \<lfloor>x\<rfloor>) + 1)" by simp
  then have "real (Suc (nat \<lfloor>x\<rfloor>)) \<le> real (2 ^ (bits (nat \<lfloor>x\<rfloor>) + 1))"
    by (rule of_nat_mono)
  then have "of_int \<lfloor>x\<rfloor> + 1 \<le> (2 ^ (bits (nat \<lfloor>x\<rfloor>) + 1) :: real)"
    using nx by simp
  moreover have "x < of_int \<lfloor>x\<rfloor> + 1" by linarith
  ultimately show "x < 2 ^ (bits (nat \<lfloor>x\<rfloor>) + 1)" by linarith
qed

lemma round_half_even_int: "round_half_even (of_int m) = m"
  by (simp add: round_half_even_def)

lemma round_half_even_error: "\<bar>of_int (round_half_even r) - r\<bar> \<le> 1 / 2"
  unfolding round_half_even_def by (auto; linarith)

lemma round_half_even_near:
  assumes "\<bar>r - of_int m\<bar> < 1 / 2"
  shows "round_half_even r = m"
proof -
  have e: "\<bar>of_int (round_half_even r) - r\<bar> \<le> 1 / 2" by (rule round_half_even_error)
  have "\<bar>(of_int (round_half_even r) :: real) - of_int m\<bar> < 1"
    using assms e by linarith
  then have "\<bar>of_int (round_half_even r - m) :: real\<bar> < 1" by simp
  then have "\<bar>round_half_even r - m\<bar> < 1"
    by (metis of_int_abs of_int_less_1_iff)
  then show ?thesis by simp
qed

text \<open>Below \<open>2^53\<close> a number at least 1 is rounded to a multiple of \<open>2^(n-52)\<close>.\<close>

lemma round64_normal:
  assumes "1 \<le> x" and "x < 2 ^ 53"
  shows "bits (nat \<lfloor>x\<rfloor>) \<le> 52"
    and "round64 x =
           of_int (round_half_even (x * 2 ^ (52 - bits (nat \<lfloor>x\<rfloor>))))
             / 2 ^ (52 - bits (nat \<lfloor>x\<rfloor>))"
proof -
  let ?n = "bits (nat \<lfloor>x\<rfloor>)"
  from exponent_ge1(2)[OF assms(1)] assms(2) have "(2 :: real) ^ ?n < 2 ^ 53" by linarith
  then have "?n < 53" using power_less_imp_less_exp[of "2 :: real" ?n 53] by simp
  then show n: "?n \<le> 52" by simp
  have q: "max (exponent x - 52) (- 1074) = int ?n - 52"
    using n by (simp add: exponent_ge1(1)[OF assms(1)])
  have p: "pow2 (int ?n - 52) = 1 / 2 ^ (52 - ?n)"
  proof (cases "?n = 52")
    case True
    then show ?thesis by (simp add: pow2_def)
  next
    case False
    with n have lt: "?n < 52" by simp
    then have "nat (52 - int ?n) = 52 - ?n" by simp
    with lt show ?thesis by (simp add: pow2_def)
  qed
  from assms(1) have "x \<noteq> 0" by simp
  then show "round64 x = of_int (round_half_even (x * 2 ^ (52 - ?n))) / 2 ^ (52 - ?n)"
    by (simp add: round64_def q p)
qed

lemma round64_int:
  assumes "1 \<le> k" and "of_int k < (2 :: real) ^ 53"
  shows "round64 (of_int k) = of_int k"
proof -
  have x1: "1 \<le> (of_int k :: real)" using assms(1) by simp
  let ?s = "52 - bits (nat \<lfloor>of_int k :: real\<rfloor>)"
  have "(of_int k :: real) * 2 ^ ?s = of_int (k * 2 ^ ?s)" by simp
  then have "round_half_even (of_int k * 2 ^ ?s) = k * 2 ^ ?s"
    by (metis round_half_even_int)
  then show ?thesis
    by (simp add: round64_normal(2)[OF x1 assms(2)])
qed

lemma round64_error:
  assumes "1 \<le> x" and "x < 2 ^ 53"
  shows "\<bar>round64 x - x\<bar> \<le> x / 2 ^ 53"
proof -
  let ?n = "bits (nat \<lfloor>x\<rfloor>)"
  let ?s = "(2 :: real) ^ (52 - ?n)"
  have n: "?n \<le> 52" by (rule round64_normal(1)[OF assms])
  have s: "0 < ?s" by simp
  have "\<bar>of_int (round_half_even (x * ?s)) - x * ?s\<bar> \<le> 1 / 2"
    by (rule round_half_even_error)
  then have "\<bar>of_int (round_half_even (x * ?s)) / ?s - x\<bar> \<le> (1 / 2) / ?s"
    using s by (simp add: field_simps abs_le_iff)
  then have e: "\<bar>round64 x - x\<bar> \<le> (1 / 2) / ?s"
    by (simp add: round64_normal(2)[OF assms])
  have "(2 :: real) ^ 53 = 2 * 2 ^ ?n * ?s"
  proof -
    have "(53 :: nat) = 1 + ?n + (52 - ?n)" using n by simp
    then have "(2 :: real) ^ 53 = 2 ^ (1 + ?n + (52 - ?n))" by simp
    then show ?thesis by (simp only: power_add power_one_right)
  qed
  then have "(1 / 2) / ?s = 2 ^ ?n / 2 ^ 53" by (simp add: field_simps)
  also have "\<dots> \<le> x / 2 ^ 53"
    using exponent_ge1(2)[OF assms(1)] by (simp add: divide_right_mono)
  finally show ?thesis using e by linarith
qed

lemma round64_near:
  assumes "1 \<le> x" and "x < 2 ^ 53"
    and "\<bar>x - of_int k\<bar> * 2 ^ (52 - bits (nat \<lfloor>x\<rfloor>)) < 1 / 2"
  shows "round64 x = of_int k"
proof -
  let ?s = "52 - bits (nat \<lfloor>x\<rfloor>)"
  have "\<bar>x * 2 ^ ?s - of_int (k * 2 ^ ?s)\<bar> = \<bar>x - of_int k\<bar> * 2 ^ ?s"
    by (simp add: left_diff_distrib[symmetric] abs_mult)
  with assms(3) have "round_half_even (x * 2 ^ ?s) = k * 2 ^ ?s"
    by (intro round_half_even_near) simp
  then show ?thesis by (simp add: round64_normal(2)[OF assms(1,2)])
qed

lemma maxDouble_large: "(2 :: real) ^ 54 \<le> maxDouble"
  by (simp add: maxDouble_def)

lemma fl_normal:
  assumes "1 \<le> x" and "x < 2 ^ 53"
  shows "fl x = Num (round64 x)"
proof -
  from round64_error[OF assms] have "\<bar>round64 x - x\<bar> \<le> x / 2 ^ 53" .
  moreover have "x / 2 ^ 53 < 1" using assms by simp
  ultimately have "0 \<le> round64 x" "round64 x < 2 ^ 54" using assms by (simp_all add: abs_le_iff; linarith)+
  with maxDouble_large show ?thesis by (simp add: fl_def)
qed






text \<open>The quotient of two integers below \<open>2^53\<close> is rounded without crossing an integer.\<close>

lemma ceil_quotient:
  fixes a b :: nat
  assumes "1 \<le> b" and "b \<le> a" and "real a < 2 ^ 53"
  shows "Math_ceil (js_div (Num (real a)) (Num (real b))) = Num (of_int \<lceil>real a / real b\<rceil>)"
proof -
  let ?x = "real a / real b"
  have b0: "0 < real b" using assms(1) by simp
  have x1: "1 \<le> ?x" using assms(1,2) by simp
  have "?x \<le> real a" using assms(1) b0 by (simp add: field_simps mult_le_cancel_left1)
  then have x53: "?x < 2 ^ 53" using assms(3) by linarith
  have div: "js_div (Num (real a)) (Num (real b)) = Num (round64 ?x)"
    using b0 fl_normal[OF x1 x53] by simp
  have "\<lceil>round64 ?x\<rceil> = \<lceil>?x\<rceil>"
  proof (cases "b dvd a")
    case True
    then obtain q where q: "a = b * q" by (auto simp: dvd_def)
    with b0 have xq: "?x = of_int (int q)" by simp
    have "1 \<le> int q" using x1 xq by simp
    moreover have "of_int (int q) < (2 :: real) ^ 53" using x53 xq by simp
    ultimately have "round64 (of_int (int q)) = of_int (int q)" by (rule round64_int)
    then show ?thesis by (simp add: xq)
  next
    case False
    let ?q = "a div b" and ?r = "a mod b"
    have r: "0 < ?r" "?r < b" using False assms(1) by (simp_all add: mod_greater_zero_iff_not_dvd)
    have "a = b * ?q + ?r" by simp
    then have "real a = real b * real ?q + real ?r" by (metis of_nat_add of_nat_mult)
    then have x: "?x = real ?q + real ?r / real b" using b0 by (simp add: field_simps)
    have lo: "real ?q + 1 / real b \<le> ?x"
      using r(1) b0 by (simp add: x divide_right_mono)
    have "real ?r \<le> real b - 1" using r(2) by linarith
    then have "real ?r / real b \<le> (real b - 1) / real b" using b0 by (simp add: divide_right_mono)
    also have "\<dots> = 1 - 1 / real b" using b0 by (simp add: field_simps)
    finally have hi: "?x \<le> real ?q + 1 - 1 / real b" by (simp add: x)
    have "real a / 2 ^ 53 < 1" using assms(3) by simp
    from divide_strict_right_mono[OF this b0]
    have "(real a / 2 ^ 53) / real b < 1 / real b" .
    moreover have "?x / 2 ^ 53 = (real a / 2 ^ 53) / real b" by simp
    ultimately have "?x / 2 ^ 53 < 1 / real b" by (simp only:)
    then have e: "\<bar>round64 ?x - ?x\<bar> < 1 / real b"
      using round64_error[OF x1 x53] by linarith
    have "real ?q < round64 ?x" "round64 ?x < real ?q + 1" using e lo hi by linarith+
    then have c1: "\<lceil>round64 ?x\<rceil> = int ?q + 1"
      by (intro ceiling_unique) simp_all
    have ib: "0 < 1 / real b" using b0 by simp
    have "real ?q < ?x" "?x < real ?q + 1" using lo hi ib by linarith+
    then have c2: "\<lceil>?x\<rceil> = int ?q + 1"
      by (intro ceiling_unique) simp_all
    from c1 c2 show ?thesis by simp
  qed
  then have "Math_ceil (Num (round64 ?x)) = Num (of_int \<lceil>?x\<rceil>)" by simp
  then show ?thesis by (simp only: div)
qed

text \<open>
  The double of \<^verbatim>\<open>1.2\<close> lies \<open>2^-52 / 5\<close> below 1.2; for a shard count below \<open>2^32\<close>
  the rounded product has the ceiling of the exact one.
\<close>

lemma double_1_2_eq: "double_1_2 = 6 / 5 - 1 / (5 * 2 ^ 52)"
  by (simp add: double_1_2_def)

lemma ceil_times_1_2:
  fixes T :: nat
  assumes "T < 2 ^ 32"
  shows "Math_ceil (js_mul (Num (real T)) (Num double_1_2)) = Num (of_int \<lceil>real T * 1.2\<rceil>)"
proof (cases "T = 0")
  case True
  have "fl 0 = Num 0" using maxDouble_large by (simp add: fl_def round64_def)
  with True show ?thesis by simp
next
  case False
  then have T1: "1 \<le> real T" by simp
  have T32: "real T < 2 ^ 32" using assms by (metis of_nat_less_iff of_nat_numeral of_nat_power)
  let ?x = "real T * double_1_2"
  let ?y = "real T * 6 / 5"
  let ?d = "real T / (5 * 2 ^ 52)"
  have xy: "?x = ?y - ?d" by (simp add: double_1_2_eq field_simps)
  have D1: "1 \<le> double_1_2" "double_1_2 < 2" by (simp_all add: double_1_2_def)
  have x1: "1 \<le> ?x" using T1 D1(1) by (metis mult_mono' mult_1 zero_le_one)
  have "?x < 2 ^ 32 * 2" using T1 T32 D1 by (intro mult_strict_mono) simp_all
  then have x33: "?x < 2 ^ 33" by simp
  then have x53: "?x < 2 ^ 53" by simp
  have d0: "0 < ?d" using T1 by simp
  have "?d < 2 ^ 32 / (5 * 2 ^ 52)" using T32 by (simp add: divide_strict_right_mono)
  then have d: "?d < 1 / 20" by simp
  have mul: "js_mul (Num (real T)) (Num double_1_2) = Num (round64 ?x)"
    using fl_normal[OF x1 x53] by simp
  have "\<lceil>round64 ?x\<rceil> = \<lceil>?y\<rceil>"
  proof (cases "5 dvd T")
    case True
    then obtain k where k: "T = 5 * k" by (auto simp: dvd_def)
    with False have k0: "0 < k" by simp
    let ?n = "bits (nat \<lfloor>?x\<rfloor>)"
    have n: "?n \<le> 52" by (rule round64_normal(1)[OF x1 x53])
    have y6: "?y = 6 * real k" by (simp add: k)
    have dk: "?d = real k / 2 ^ 52" by (simp add: k)
    have xk: "?x = 6 * real k - real k / 2 ^ 52" using xy by (simp only: y6 dk)
    have kk: "real k / 2 ^ 52 \<le> real k" by (simp add: field_simps)
    have "5 * real k \<le> ?x" using kk by (simp only: xk, (linarith)?)
    also have "?x < 2 ^ (?n + 1)" by (rule exponent_ge1(3)[OF x1])
    finally have "5 * real k < 2 * 2 ^ ?n" by simp
    then have big: "2 * real k < 2 ^ ?n" using k0 by simp
    have "(52 :: nat) = ?n + (52 - ?n)" using n by simp
    then have "(2 :: real) ^ 52 = 2 ^ (?n + (52 - ?n))" by simp
    then have p: "(2 :: real) ^ 52 = 2 ^ ?n * 2 ^ (52 - ?n)" by (simp only: power_add)
    have "real k / 2 ^ 52 * 2 ^ (52 - ?n) = real k / 2 ^ ?n"
      by (simp only: p, (simp add: field_simps)?)
    also have "\<dots> < 1 / 2" using big by (simp add: field_simps)
    finally have near: "real k / 2 ^ 52 * 2 ^ (52 - ?n) < 1 / 2" .
    have "\<bar>?x - of_int (6 * int k)\<bar> = real k / 2 ^ 52"
      by (simp only: xk, (simp)?)
    with near have "\<bar>?x - of_int (6 * int k)\<bar> * 2 ^ (52 - ?n) < 1 / 2" by (simp only:)
    from round64_near[OF x1 x53 this] have "round64 ?x = of_int (6 * int k)" .
    moreover have "?y = of_int (6 * int k)" by (simp add: y6)
    ultimately show ?thesis by (simp only: ceiling_of_int)
  next
    case nd: False
    define q where "q = (6 * T) div 5"
    define r where "r = (6 * T) mod 5"
    have "\<not> 5 dvd 6 * T" using nd by presburger
    then have "0 < r" unfolding r_def by (simp add: mod_greater_zero_iff_not_dvd)
    then have r1: "1 \<le> real r" by simp
    have "r < 5" unfolding r_def by simp
    then have r4: "real r \<le> 4" by simp
    have "6 * T = 5 * q + r" unfolding q_def r_def by simp
    then have "real (6 * T) = real (5 * q + r)" by (rule arg_cong)
    then have "6 * real T = 5 * real q + real r" by simp
    then have y: "?y = real q + real r / 5" by (simp add: field_simps)
    have lo: "real q + 1 / 5 \<le> ?y" using r1 by (simp add: y)
    have hi: "?y \<le> real q + 4 / 5" using r4 by (simp add: y)
    have "?x / 2 ^ 53 < 2 ^ 33 / 2 ^ 53" by (rule divide_strict_right_mono[OF x33]) simp
    moreover have "(2 :: real) ^ 33 / 2 ^ 53 < 1 / 20" by simp
    ultimately have "?x / 2 ^ 53 < 1 / 20" by (rule less_trans)
    with round64_error[OF x1 x53] have e: "\<bar>round64 ?x - ?x\<bar> < 1 / 20" by linarith
    have "real q < round64 ?x" "round64 ?x < real q + 1"
      using e lo hi d d0 xy by linarith+
    then have c1: "\<lceil>round64 ?x\<rceil> = int q + 1"
      by (intro ceiling_unique) simp_all
    have "real q < ?y" "?y < real q + 1" using lo hi by linarith+
    then have c2: "\<lceil>?y\<rceil> = int q + 1"
      by (intro ceiling_unique) simp_all
    from c1 c2 show ?thesis by simp
  qed
  moreover have "real T * 1.2 = ?y" by simp
  ultimately have "Math_ceil (Num (round64 ?x)) = Num (of_int \<lceil>real T * 1.2\<rceil>)"
    by simp
  then show ?thesis by (simp only: mul)
qed

section \<open>The new shard count\<close>

lemma realShardCount_int:
  assumes "T < 2 ^ 32"
  shows "realShardCount (Num (of_int E)) T =
           Num (of_int (if int T < E then E else \<lceil>of_nat T * (1.2 :: real)\<rceil>))"
  using ceil_times_1_2[OF assms] by (simp add: realShardCount_def)




text \<open>
  The two examples of the growth rule: 3000 guilds and 12000 guilds, 1000 per shard, on
  four shards.
\<close>

lemma shard_count_examples:
  "realShardCount (Math_ceil (js_div (Num 3000) (Num 1000))) 4 = Num 5
   \<and> realShardCount (Math_ceil (js_div (Num 12000) (Num 1000))) 4 = Num 12"
proof -
  have a: "Math_ceil (js_div (Num (real 3000)) (Num (real 1000))) = Num (of_int \<lceil>real 3000 / real 1000\<rceil>)"
    by (rule ceil_quotient) simp_all
  have b: "Math_ceil (js_div (Num (real 12000)) (Num (real 1000))) = Num (of_int \<lceil>real 12000 / real 1000\<rceil>)"
    by (rule ceil_quotient) simp_all
  have a': "Math_ceil (js_div (Num 3000) (Num 1000)) = Num (of_int 3)" using a by simp
  have b': "Math_ceil (js_div (Num 12000) (Num 1000)) = Num (of_int 12)" using b by simp
  have T: "(4 :: nat) < 2 ^ 32" by simp
  show ?thesis
    by (simp only: a' b' realShardCount_int[OF T]) simp
qed




section \<open>The cluster client\<close>

lemmas client_defs =
  AutoResharderClusterClient_def Client_validate_def initialize_def setInterval_def
  clearInterval_def mergeClientOptions_def defaultClientOptions_def override_def stop_def
  start_def reStart_def worker_def reporter_def

subsection \<open>The field started\<close>

text \<open>
  No method assigns \<^verbatim>\<open>started\<close>: it keeps the \<^verbatim>\<open>false\<close> of line 79, so \<^verbatim>\<open>stop\<close> always
  throws and \<^verbatim>\<open>start\<close> never throws 'Already started'.
\<close>

lemma started_sendData: "started (snd (sendData s)) = started s"
  by (simp add: sendData_def Let_def
      split: result.splits option.splits promise.splits prod.splits)

lemma started_initialize: "started (snd (initialize b s)) = started s"
proof -
  define s1 where "s1 = (case interval s of None \<Rightarrow> s | Some h \<Rightarrow> clearInterval h s)"
  have s1: "started s1 = started s"
    by (simp add: s1_def clearInterval_def split: option.splits)
  show ?thesis
  proof (cases b)
    case True
    obtain r s2 where sd: "sendData s1 = (r, s2)" by force
    have "started s2 = started s1" using started_sendData[of s1] sd by simp
    then show ?thesis
      using True sd s1
      by (cases r) (simp_all add: initialize_def s1_def[symmetric] setInterval_def Let_def)
  next
    case False
    then show ?thesis
      using s1 by (simp add: initialize_def s1_def[symmetric] setInterval_def)
  qed
qed

lemma started_stop: "started (snd (stop s)) = started s"
  by (simp add: stop_def Let_def clearInterval_def split: option.splits)

lemma started_start: "started (snd (start p b s)) = started s"
  by (simp add: start_def started_initialize)

lemma started_reStart: "started (snd (reStart p b s)) = started s"
  by (simp add: reStart_def Let_def started_initialize clearInterval_def split: option.splits)

lemma stop_not_started: "started s = False \<Longrightarrow> fst (stop s) = Threw NotRunning"
  by (simp add: stop_def Let_def clearInterval_def split: option.splits)

lemma start_not_started: "started s = False \<Longrightarrow> fst (start p b s) \<noteq> Threw AlreadyStarted"
proof -
  have sd: "fst (sendData s') \<noteq> Threw AlreadyStarted" for s'
    by (simp add: sendData_def Client_validate_def Let_def
        split: result.splits option.splits promise.splits prod.splits)
  have ini: "fst (initialize b s') \<noteq> Threw AlreadyStarted" for s'
  proof -
    define s1 where "s1 = (case interval s' of None \<Rightarrow> s' | Some h \<Rightarrow> clearInterval h s')"
    obtain r s2 where r: "sendData s1 = (r, s2)" by force
    with sd[of s1] have "r \<noteq> Threw AlreadyStarted" by simp
    with r show ?thesis
      by (cases r; cases b) (simp_all add: initialize_def s1_def[symmetric] setInterval_def)
  qed
  assume "started s = False"
  then show ?thesis by (simp add: start_def ini)
qed

lemma constructed_reporter: "AutoResharderClusterClient (Some worker) None = Returned reporter"
  by (simp add: client_defs)

text \<open>
  C6. The claim: \<^verbatim>\<open>stop()\<close> on an active plugin cancels the timer, clears the running
  state and succeeds, and fails with 'Not running!' only when the plugin is not active.
  The code: \<^verbatim>\<open>started\<close> is never set, so \<^verbatim>\<open>stop()\<close> throws 'Not running!' in every state.
  On the plugin the constructor returned, whose timer is armed, the first \<^verbatim>\<open>stop()\<close>
  cancels the timer (no timer is left to fire) and then throws.
\<close>

theorem stop_running_reporter_throws:
  "AutoResharderClusterClient (Some worker) None = Returned reporter
   \<and> timers reporter = [(0, Number (Num 60000))]
   \<and> stop reporter = (Threw NotRunning, reporter\<lparr>interval := None, timers := []\<rparr>)
   \<and> timerFires 0 (snd (stop reporter)) = None"
  by (simp add: client_defs timerFires_def)

text \<open>
  C7. The claim: \<^verbatim>\<open>start()\<close> fails with 'Already started' on an active plugin, and
  otherwise merges the options, validates them, arms the timer and returns. The code:
  \<^verbatim>\<open>started\<close> is never set, so the test of line 150 never holds, and \<^verbatim>\<open>start\<close> calls
  \<^verbatim>\<open>initialize\<close> without \<^verbatim>\<open>validate\<close> (which the constructor calls first). On the plugin
  the constructor returned, whose timer is armed, \<^verbatim>\<open>start()\<close> replaces the timer and
  returns true; and on the stopped plugin, \<^verbatim>\<open>start({sendDataIntervalMS: 10})\<close> arms a timer
  of 10 ms and returns true, though \<^verbatim>\<open>validate\<close> rejects an interval below 1000.
\<close>

theorem start_running_reporter_returns:
  "AutoResharderClusterClient (Some worker) None = Returned reporter
   \<and> timers reporter = [(0, Number (Num 60000))]
   \<and> start None False reporter
       = (Returned True,
          reporter\<lparr>interval := Some 1, timers := [(1, Number (Num 60000))], nextTimer := 2\<rparr>)
   \<and> start (Some \<lparr>p_sendDataIntervalMS = Some (Number (Num 10)), p_sendDataFunction = None,
                  p_c_debug = None\<rparr>) False (snd (stop reporter))
       = (Returned True,
          reporter\<lparr>c_options := (c_options reporter)\<lparr>sendDataIntervalMS := Number (Num 10)\<rparr>,
                    interval := Some 1, timers := [(1, Number (Num 10))], nextTimer := 2\<rparr>)"
  by (simp add: client_defs)

text \<open>The options that call of \<^verbatim>\<open>start\<close> left in place are rejected by the next tick.\<close>

lemma tick_after_start_rejects_interval:
  "sendData (snd (start (Some \<lparr>p_sendDataIntervalMS = Some (Number (Num 10)),
                               p_sendDataFunction = None, p_c_debug = None\<rparr>)
                        False (snd (stop reporter))))
   = (Threw InvalidSendDataIntervalMS,
      snd (start (Some \<lparr>p_sendDataIntervalMS = Some (Number (Num 10)),
                         p_sendDataFunction = None, p_c_debug = None\<rparr>)
                  False (snd (stop reporter))))"
  by (simp add: client_defs sendData_def)

subsection \<open>The shape of the data sent\<close>

text \<open>
  C9. For a tick whose \<^verbatim>\<open>validate\<close> passes and whose \<^verbatim>\<open>sendDataFunction\<close> returned an
  object \<open>d\<close>: when the \<^verbatim>\<open>clusterId\<close> of \<open>d\<close> is not a number or is negative, or some entry of
  its \<^verbatim>\<open>shardData\<close> has a negative \<^verbatim>\<open>shardId\<close> or a \<^verbatim>\<open>guildCount\<close> that is not a number,
  \<^const>\<open>sendData\<close> throws the SyntaxError of line 218 and the state is unchanged, so
  nothing was sent; when the \<^verbatim>\<open>clusterId\<close> is a non-negative number and every entry has a
  non-negative number for \<^verbatim>\<open>shardId\<close> and for \<^verbatim>\<open>guildCount\<close>, no SyntaxError is thrown and
  \<^verbatim>\<open>clusterClient.send\<close> is called with \<open>d\<close> under the type
  \<^verbatim>\<open>CLIENT_AUTORESHARDER_SENDDATA\<close>, the outcome of the tick being that of the send.
\<close>

theorem sendData_shape:
  assumes "Client_validate s = Returned ()"
    and "clusterClient s = Some cc"
    and "send cc = Some deliver"
    and "sendDataFunction (c_options s) = Some fn"
    and "fn cc = Fulfilled (Some d)"
  shows "(typeof (clusterId d) \<noteq> ''number'' \<or> js_lt (number_of (clusterId d)) (Num 0)
          \<or> (\<exists>xs v. shardData d = Some xs \<and> v \<in> set xs
                \<and> (js_lt (number_of (shardId v)) (Num 0)
                     \<or> typeof (guildCount v) \<noteq> ''number''))
          \<longrightarrow> sendData s = (Threw InvalidSendData, s))
       \<and> ((\<exists>c. clusterId d = Number (Num c) \<and> 0 \<le> c)
           \<and> (\<exists>xs. shardData d = Some xs
                 \<and> (\<forall>v \<in> set xs. (\<exists>i. shardId v = Number (Num i) \<and> 0 \<le> i)
                                   \<and> (\<exists>g. guildCount v = Number (Num g) \<and> 0 \<le> g)))
          \<longrightarrow> fst (sendData s)
                = (case deliver \<lparr>data = d, msg_type = CLIENT_AUTORESHARDER_SENDDATA\<rparr> of
                     Rejected \<Rightarrow> Threw SendRejected | Fulfilled u \<Rightarrow> Returned ())
              \<and> sent (snd (sendData s))
                = sent s @ [\<lparr>data = d, msg_type = CLIENT_AUTORESHARDER_SENDDATA\<rparr>])"
proof (rule conjI; rule impI)
  assume "typeof (clusterId d) \<noteq> ''number'' \<or> js_lt (number_of (clusterId d)) (Num 0)
          \<or> (\<exists>xs v. shardData d = Some xs \<and> v \<in> set xs
                \<and> (js_lt (number_of (shardId v)) (Num 0)
                     \<or> typeof (guildCount v) \<noteq> ''number''))"
  then have "invalidSendData (Some d)"
    by (auto simp: invalidSendData_def list_ex_iff split: option.splits)
  then show "sendData s = (Threw InvalidSendData, s)"
    using assms by (simp add: sendData_def)
next
  assume "(\<exists>c. clusterId d = Number (Num c) \<and> 0 \<le> c)
           \<and> (\<exists>xs. shardData d = Some xs
                 \<and> (\<forall>v \<in> set xs. (\<exists>i. shardId v = Number (Num i) \<and> 0 \<le> i)
                                   \<and> (\<exists>g. guildCount v = Number (Num g) \<and> 0 \<le> g)))"
  then have ok: "\<not> invalidSendData (Some d)"
    by (fastforce simp: invalidSendData_def list_ex_iff)
  show "fst (sendData s)
                = (case deliver \<lparr>data = d, msg_type = CLIENT_AUTORESHARDER_SENDDATA\<rparr> of
                     Rejected \<Rightarrow> Threw SendRejected | Fulfilled u \<Rightarrow> Returned ())
              \<and> sent (snd (sendData s))
                = sent s @ [\<lparr>data = d, msg_type = CLIENT_AUTORESHARDER_SENDDATA\<rparr>]"
    using assms ok by (simp add: sendData_def Let_def split: promise.splits)
qed

theorem sendData_shape_witness:
  "sendData (reporting negativeShard) = (Threw InvalidSendData, reporting negativeShard)
   \<and> fst (sendData (reporting wellShaped)) = Returned ()
   \<and> sent (snd (sendData (reporting wellShaped)))
       = [\<lparr>data = wellShaped, msg_type = CLIENT_AUTORESHARDER_SENDDATA\<rparr>]"
proof -
  have v: "Client_validate (reporting d) = Returned ()" for d
    by (simp add: reporting_def client_defs)
  have c: "clusterClient (reporting d) = Some worker" for d
    by (simp add: reporting_def reporter_def)
  have s: "send worker = Some (\<lambda>msg. Fulfilled ())"
    by (simp add: worker_def)
  have f: "sendDataFunction (c_options (reporting d)) = Some (\<lambda>c. Fulfilled (Some d))" for d
    by (simp add: reporting_def)
  from sendData_shape[OF v c s f refl, of negativeShard]
    sendData_shape[OF v c s f refl, of wellShaped]
  show ?thesis
    by (simp add: negativeShard_def wellShaped_def reporting_def reporter_def)
qed

end
